theory Spec2Isabelle
  imports Complex_Main "HOL-Library.Word" "HOL-Library.Char_ord" "HOL-Library.List_Lexorder"
begin

section \<open>The transaction table\<close>

text \<open>
  \<^verbatim>\<open>v7.py\<close> keeps one pandas table \<^verbatim>\<open>df\<close> and answers three Dash callbacks from it.
  A string is the list of the bytes of its UTF-8 encoding; the order of byte lists is the
  order of Python's \<^verbatim>\<open>str\<close>, by code point. A cell of an object column is missing
  (pandas' \<^verbatim>\<open>NaN\<close>), a string, or a number; of a number the table keeps what
  \<^verbatim>\<open>str()\<close> prints for it (\<^verbatim>\<open>1\<close> in a column of integers, \<^verbatim>\<open>1.0\<close> in a column of
  floats), which is all the program asks of a number in such a column; the numbers of one
  column are of one type, so that equal numbers print alike.
\<close>

datatype cell = NaN | Str string | Num string

datatype error = KeyError string | ValueError string | TypeError string

record datetime =
  dt_year :: nat
  dt_month :: nat
  dt_day :: nat
  dt_hour :: nat
  dt_minute :: nat
  dt_second :: nat

text \<open>
  A time stamp as \<^verbatim>\<open>to_datetime\<close> meets it: an empty cell, which becomes \<^verbatim>\<open>NaT\<close>; a
  date-time; or a text it cannot parse.
\<close>

datatype stamp = NaT | Stamp datetime | Unparsed string

text \<open>
  One row of the table. \<^verbatim>\<open>PASSENGER_COUNT\<close> is a column of 64-bit integers: its sums
  wrap around as numpy's do. \<^verbatim>\<open>FARE_COLLECTED\<close> holds rationals, summed exactly (the
  rounding of the program's floats is not modelled). The three derived columns are
  missing in a row whose time stamp is.
\<close>

type_synonym int64 = "64 word"

record row =
  DEPOT_NAME :: cell
  CITY_NAME :: cell
  ROUTE_NAME :: cell
  PASSENGER_COUNT :: int64
  FARE_COLLECTED :: rat
  PAYMENT_MODE :: cell
  TICKET_TIME_STAMP :: stamp
  Passenger_Type :: cell
  Hour :: "int option"
  Time_Interval :: "int option"
  Time_Interval_Label :: "string option"

text \<open>
  A table is its list of column names and its rows. A field of a row whose column is
  not among \<open>columns\<close> is never read: every read goes through \<open>column\<close>, which
  raises \<^verbatim>\<open>KeyError\<close> as \<^verbatim>\<open>df['name']\<close> does.
\<close>

record dataframe =
  columns :: "string list"
  rows :: "row list"

definition column :: "dataframe \<Rightarrow> string \<Rightarrow> (row \<Rightarrow> 'a) \<Rightarrow> error + 'a list" where
  "column d name field =
     (if name \<in> set (columns d) then Inr (map field (rows d)) else Inl (KeyError name))"

definition df_empty :: "dataframe \<Rightarrow> bool" where
  "df_empty d = (rows d = [] \<or> columns d = [])"

text \<open>Boolean indexing \<^verbatim>\<open>d[mask]\<close>: the rows whose mask entry is true, in order.\<close>

definition bool_index :: "dataframe \<Rightarrow> bool list \<Rightarrow> dataframe" where
  "bool_index d keep = d\<lparr>rows := map fst (filter snd (zip (rows d) keep))\<rparr>"

subsection \<open>Strings\<close>

text \<open>
  \<^verbatim>\<open>str.strip()\<close> removes the white space characters of Unicode from both ends. In UTF-8
  they are: the single bytes 9 to 13, 28 to 31 and 32; \<^verbatim>\<open>C2 85\<close> and \<^verbatim>\<open>C2 A0\<close>
  (U+0085, U+00A0); \<^verbatim>\<open>E1 9A 80\<close> (U+1680); \<^verbatim>\<open>E2 80 80\<close> to \<^verbatim>\<open>E2 80 8A\<close>,
  \<^verbatim>\<open>E2 80 A8\<close>, \<^verbatim>\<open>E2 80 A9\<close>, \<^verbatim>\<open>E2 80 AF\<close> (U+2000 to U+200A, U+2028, U+2029,
  U+202F); \<^verbatim>\<open>E2 81 9F\<close> (U+205F); \<^verbatim>\<open>E3 80 80\<close> (U+3000).
\<close>

definition space1 :: "char \<Rightarrow> bool" where
  "space1 a = (let n = (of_char a :: nat) in (9 \<le> n \<and> n \<le> 13) \<or> (28 \<le> n \<and> n \<le> 32))"

definition space2 :: "char \<Rightarrow> char \<Rightarrow> bool" where
  "space2 a b = ((of_char a :: nat) = 194 \<and> ((of_char b :: nat) = 133 \<or> (of_char b :: nat) = 160))"

definition space3 :: "char \<Rightarrow> char \<Rightarrow> char \<Rightarrow> bool" where
  "space3 a b c =
     (let x = (of_char a :: nat); y = (of_char b :: nat); z = (of_char c :: nat)
      in (x = 225 \<and> y = 154 \<and> z = 128)
       \<or> (x = 226 \<and> y = 128 \<and> ((128 \<le> z \<and> z \<le> 138) \<or> z = 168 \<or> z = 169 \<or> z = 175))
       \<or> (x = 226 \<and> y = 129 \<and> z = 159)
       \<or> (x = 227 \<and> y = 128 \<and> z = 128))"

fun lstrip :: "string \<Rightarrow> string" where
  "lstrip (a # b # c # s) =
     (if space1 a then lstrip (b # c # s)
      else if space2 a b then lstrip (c # s)
      else if space3 a b c then lstrip s
      else a # b # c # s)"
| "lstrip [a, b] = (if space1 a then lstrip [b] else if space2 a b then [] else [a, b])"
| "lstrip [a] = (if space1 a then [] else [a])"
| "lstrip [] = []"

text \<open>The same from the end, on the reversed string.\<close>

fun rstrip_rev :: "string \<Rightarrow> string" where
  "rstrip_rev (c # b # a # s) =
     (if space1 c then rstrip_rev (b # a # s)
      else if space2 b c then rstrip_rev (a # s)
      else if space3 a b c then rstrip_rev s
      else c # b # a # s)"
| "rstrip_rev [c, b] = (if space1 c then rstrip_rev [b] else if space2 b c then [] else [c, b])"
| "rstrip_rev [c] = (if space1 c then [] else [c])"
| "rstrip_rev [] = []"

definition strip :: "string \<Rightarrow> string" where
  "strip s = rev (rstrip_rev (rev (lstrip s)))"

definition digit :: "nat \<Rightarrow> char" where
  "digit n = ''0123456789'' ! n"

fun str_nat :: "nat \<Rightarrow> string" where
  "str_nat n = (if n < 10 then [digit n] else str_nat (n div 10) @ [digit (n mod 10)])"

declare str_nat.simps [simp del]

definition str_int :: "int \<Rightarrow> string" where
  "str_int i = (if i < 0 then CHR ''-'' # str_nat (nat (- i)) else str_nat (nat i))"

text \<open>\<^verbatim>\<open>str(x)\<close> of a cell (the program asks it of cells that are not missing).\<close>

fun str_cell :: "cell \<Rightarrow> string" where
  "str_cell (Str s) = s"
| "str_cell (Num printed) = printed"
| "str_cell NaN = ''nan''"

text \<open>\<^verbatim>\<open>str.zfill(width)\<close>: zeros on the left, after a leading sign.\<close>

definition zfill :: "nat \<Rightarrow> string \<Rightarrow> string" where
  "zfill width s =
     (case s of
        c # t \<Rightarrow>
          if c = CHR ''-'' \<or> c = CHR ''+'' then c # replicate (width - length s) CHR ''0'' @ t
          else replicate (width - length s) CHR ''0'' @ s
      | [] \<Rightarrow> replicate width CHR ''0'')"

subsection \<open>Loading\<close>

text \<open>
  Lines 6 to 16. The file's content is not part of the repository, so \<open>load\<close> takes
  what \<^verbatim>\<open>read_csv\<close> returned: \<open>None\<close> when the file is not found, otherwise the
  table. \<^verbatim>\<open>to_datetime\<close> raises on a text it cannot parse. If a time stamp is missing,
  \<^verbatim>\<open>Hour\<close> and \<^verbatim>\<open>Time_Interval\<close> are columns of floats, so the labels of the other rows
  are printed from floats (\<^verbatim>\<open>6.0-9.0 hrs\<close>), and the three derived cells of the row
  itself are missing. An hour held as a float is kept as the integer it equals.
\<close>

definition interval_label :: "int \<Rightarrow> string" where
  "interval_label t = zfill 2 (str_int t) @ ''-'' @ zfill 2 (str_int (t + 3)) @ '' hrs''"

definition float_label :: "int \<Rightarrow> string" where
  "float_label t =
     zfill 2 (str_int t @ ''.0'') @ ''-'' @ zfill 2 (str_int (t + 3) @ ''.0'') @ '' hrs''"

definition derive :: "bool \<Rightarrow> row \<Rightarrow> row" where
  "derive floats r =
     (case TICKET_TIME_STAMP r of
        Stamp ts \<Rightarrow>
          (let h = int (dt_hour ts); t = (h div 3) * 3
           in r\<lparr>Hour := Some h, Time_Interval := Some t,
                 Time_Interval_Label := Some (if floats then float_label t else interval_label t)\<rparr>)
      | _ \<Rightarrow> r\<lparr>Hour := None, Time_Interval := None, Time_Interval_Label := None\<rparr>)"

definition fallback_columns :: "string list" where
  "fallback_columns = [''DEPOT_NAME'', ''CITY_NAME'', ''ROUTE_NAME'', ''PASSENGER_COUNT'',
     ''FARE_COLLECTED'', ''PAYMENT_MODE'', ''TICKET_TIME_STAMP'', ''Passenger Type'']"

definition add_column :: "string \<Rightarrow> string list \<Rightarrow> string list" where
  "add_column name cs = (if name \<in> set cs then cs else cs @ [name])"

definition unparsed :: "stamp \<Rightarrow> bool" where
  "unparsed t = (case t of Unparsed raw \<Rightarrow> True | _ \<Rightarrow> False)"

definition load :: "dataframe option \<Rightarrow> error + dataframe" where
  "load csv =
     (case csv of
        None \<Rightarrow> Inr \<lparr>columns = fallback_columns, rows = []\<rparr>
      | Some d \<Rightarrow>
          if ''TICKET_TIME_STAMP'' \<notin> set (columns d) then Inl (KeyError ''TICKET_TIME_STAMP'')
          else if list_ex unparsed (map TICKET_TIME_STAMP (rows d))
          then Inl (ValueError ''to_datetime'')
          else Inr \<lparr>columns = add_column ''Time_Interval_Label''
                                (add_column ''Time_Interval'' (add_column ''Hour'' (columns d))),
                    rows = map (derive (NaT \<in> set (map TICKET_TIME_STAMP (rows d)))) (rows d)\<rparr>)"

section \<open>The pandas operations the callbacks use\<close>

text \<open>An exception ends the callback: the rest runs only on a value.\<close>

definition and_then :: "error + 'a \<Rightarrow> ('a \<Rightarrow> error + 'b) \<Rightarrow> error + 'b" where
  "and_then r f = (case r of Inl e \<Rightarrow> Inl e | Inr x \<Rightarrow> f x)"

text \<open>
  \<^verbatim>\<open>unique()\<close>: the distinct values in order of first appearance (all missing values
  count as one value).
\<close>

fun unique_from :: "'a list \<Rightarrow> 'a list \<Rightarrow> 'a list" where
  "unique_from seen [] = []"
| "unique_from seen (x # xs) =
     (if x \<in> set seen then unique_from seen xs else x # unique_from (x # seen) xs)"

definition unique :: "'a list \<Rightarrow> 'a list" where
  "unique xs = unique_from [] xs"

definition notna :: "cell \<Rightarrow> bool" where
  "notna c = (c \<noteq> NaN)"

definition is_str :: "cell \<Rightarrow> bool" where
  "is_str c = (case c of Str s \<Rightarrow> True | _ \<Rightarrow> False)"

text \<open>
  A dropdown's value: absent (\<^verbatim>\<open>None\<close>), or a list whose entries are strings or
  \<^verbatim>\<open>None\<close>. \<open>chosen\<close> is the guard \<^verbatim>\<open>sel and sel != [None]\<close>.
\<close>

type_synonym selection = "string option list option"

definition chosen :: "selection \<Rightarrow> bool" where
  "chosen sel = (case sel of None \<Rightarrow> False | Some vs \<Rightarrow> vs \<noteq> [] \<and> vs \<noteq> [None])"

text \<open>
  \<^verbatim>\<open>Series.isin(values)\<close> on a column of names, as pandas 3 computes it: a string cell is
  kept when it is one of the values, a missing cell when \<^verbatim>\<open>None\<close> is one of them, a
  number never (it equals no string).
\<close>

definition isin :: "cell list \<Rightarrow> string option list \<Rightarrow> bool list" where
  "isin cs vs =
     map (\<lambda>c. case c of Str s \<Rightarrow> Some s \<in> set vs | NaN \<Rightarrow> None \<in> set vs | Num printed \<Rightarrow> False) cs"

text \<open>
  One filter statement of a callback:
  \<^verbatim>\<open>if sel and sel != [None]: d = d[d[name].isin(sel)]\<close>.
\<close>

definition filter_by :: "dataframe \<Rightarrow> string \<Rightarrow> (row \<Rightarrow> cell) \<Rightarrow> selection \<Rightarrow> error + dataframe" where
  "filter_by d name field sel =
     (case sel of
        None \<Rightarrow> Inr d
      | Some vs \<Rightarrow>
          if vs \<noteq> [] \<and> vs \<noteq> [None]
          then and_then (column d name field) (\<lambda>cs. Inr (bool_index d (isin cs vs)))
          else Inr d)"

text \<open>
  \<^verbatim>\<open>groupby(key)['PASSENGER_COUNT'].sum().reset_index()\<close>: the rows whose key is missing
  are left out (\<^verbatim>\<open>dropna\<close>, the default); one entry per distinct key with the 64-bit sum
  of its rows; the keys ascending when \<open>sorted_keys\<close> (the default of \<^verbatim>\<open>groupby\<close>),
  in order of first appearance otherwise.
\<close>

fun keyed :: "('k option \<times> 'v) list \<Rightarrow> ('k \<times> 'v) list" where
  "keyed [] = []"
| "keyed ((None, v) # kvs) = keyed kvs"
| "keyed ((Some k, v) # kvs) = (k, v) # keyed kvs"

definition group_sum :: "bool \<Rightarrow> ('k::linorder option \<times> int64) list \<Rightarrow> ('k \<times> int64) list" where
  "group_sum sorted_keys kvs =
     (let present = keyed kvs; ks = unique (map fst present)
      in map (\<lambda>k. (k, sum_list (map snd (filter (\<lambda>kv. fst kv = k) present))))
           (if sorted_keys then sort ks else ks))"

definition groupby_sum ::
  "dataframe \<Rightarrow> string \<Rightarrow> (row \<Rightarrow> 'k::linorder option) \<Rightarrow> bool \<Rightarrow> error + ('k \<times> int64) list" where
  "groupby_sum d name key sorted_keys =
     and_then (column d name key) (\<lambda>ks.
     and_then (column d ''PASSENGER_COUNT'' PASSENGER_COUNT) (\<lambda>vs.
     Inr (group_sum sorted_keys (zip ks vs))))"

text \<open>
  \<^verbatim>\<open>idxmax()\<close> and \<^verbatim>\<open>idxmin()\<close>: the position of the first occurrence of the
  largest (smallest) entry; \<^verbatim>\<open>ValueError\<close> on an empty series. The entries are the signed
  values of the 64-bit sums.
\<close>

primrec first_best :: "(int \<Rightarrow> int \<Rightarrow> bool) \<Rightarrow> nat \<Rightarrow> nat \<Rightarrow> int \<Rightarrow> int list \<Rightarrow> nat" where
  "first_best better i b v [] = b"
| "first_best better i b v (x # xs) =
     (if better x v then first_best better (Suc i) i x xs
      else first_best better (Suc i) b v xs)"

definition idxmax :: "int list \<Rightarrow> error + nat" where
  "idxmax xs =
     (case xs of
        [] \<Rightarrow> Inl (ValueError ''attempt to get argmax of an empty sequence'')
      | x # t \<Rightarrow> Inr (first_best (\<lambda>a b. b < a) 1 0 x t))"

definition idxmin :: "int list \<Rightarrow> error + nat" where
  "idxmin xs =
     (case xs of
        [] \<Rightarrow> Inl (ValueError ''attempt to get argmin of an empty sequence'')
      | x # t \<Rightarrow> Inr (first_best (\<lambda>a b. a < b) 1 0 x t))"

text \<open>
  \<^verbatim>\<open>value_counts()\<close>: the count of every distinct value that is not missing, the
  most frequent first (pandas does not fix the order among equal counts; the model
  keeps the order of first appearance); with \<^verbatim>\<open>normalize=True\<close> every count is divided
  by the sum of the counts.
\<close>

definition value_counts :: "cell list \<Rightarrow> (cell \<times> nat) list" where
  "value_counts cs =
     (let present = filter notna cs
      in sort_key (\<lambda>(v, n). - int n) (map (\<lambda>v. (v, count_list present v)) (unique present)))"

definition value_counts_normalize :: "cell list \<Rightarrow> (cell \<times> rat) list" where
  "value_counts_normalize cs =
     (let counts = value_counts cs; total = sum_list (map snd counts)
      in map (\<lambda>(v, n). (v, of_nat n / of_nat total)) counts)"

section \<open>The callbacks\<close>

text \<open>
  What a callback hands to the page. Of the markup only the data is kept: an option of a
  dropdown is its label and value, the four cards are their four figures, and a chart is
  its kind, its title and the series it plots. \<open>Empty_Dict\<close> is the literal \<^verbatim>\<open>{}\<close>.
\<close>

record dropdown_option =
  label :: string
  val :: string

record cards =
  total_ridership :: int64
  total_revenue :: rat
  peak_hour :: string
  off_peak_hour :: string

datatype figure =
  Pie string "(cell \<times> rat) list"
| Bar string "(string \<times> int64) list"
| Area string "(int \<times> int64) list" "int \<times> int"
| Empty_Dict

text \<open>Lines 19 to 30: the depot and city options, built once from the loaded table.\<close>

definition clean_options :: "dataframe \<Rightarrow> string \<Rightarrow> (row \<Rightarrow> cell) \<Rightarrow> error + dropdown_option list" where
  "clean_options d name field =
     and_then (column d name field) (\<lambda>cs.
     Inr (map (\<lambda>i. \<lparr>label = strip (str_cell i), val = strip (str_cell i)\<rparr>)
            (filter (\<lambda>i. is_str i \<and> strip (str_cell i) \<noteq> [])
               (unique (filter notna cs)))))"

definition depot_options :: "dataframe \<Rightarrow> error + dropdown_option list" where
  "depot_options d = clean_options d ''DEPOT_NAME'' DEPOT_NAME"

definition city_options :: "dataframe \<Rightarrow> error + dropdown_option list" where
  "city_options d = clean_options d ''CITY_NAME'' CITY_NAME"

text \<open>
  Lines 172 to 178: the depot and the city filter of \<open>set_route_options\<close>. The first
  argument is the module's table \<^verbatim>\<open>df\<close>.
\<close>

definition route_filtered :: "dataframe \<Rightarrow> selection \<Rightarrow> selection \<Rightarrow> error + dataframe" where
  "route_filtered df selected_depots selected_cities =
     and_then (filter_by df ''DEPOT_NAME'' DEPOT_NAME selected_depots) (\<lambda>d1.
     filter_by d1 ''CITY_NAME'' CITY_NAME selected_cities)"

text \<open>
  Lines 180 to 187: the route dropdown's options and its new value, the empty list.
\<close>

definition route_options :: "dataframe \<Rightarrow> error + dropdown_option list \<times> string list" where
  "route_options filtered_df =
     (if df_empty filtered_df then Inr ([], [])
      else
        and_then (column filtered_df ''ROUTE_NAME'' ROUTE_NAME) (\<lambda>names.
        let routes = sort (map (\<lambda>r. strip (str_cell r)) (filter notna (unique names)))
        in Inr (map (\<lambda>i. \<lparr>label = i, val = i\<rparr>) routes, [])))"

definition set_route_options ::
  "dataframe \<Rightarrow> selection \<Rightarrow> selection \<Rightarrow> error + dropdown_option list \<times> string list" where
  "set_route_options df selected_depots selected_cities =
     and_then (route_filtered df selected_depots selected_cities) route_options"

text \<open>Lines 199 to 207, and again 282 to 289: the three filters of the two chart callbacks.\<close>

definition filtered :: "dataframe \<Rightarrow> selection \<Rightarrow> selection \<Rightarrow> selection \<Rightarrow> error + dataframe" where
  "filtered df selected_depots selected_cities selected_routes =
     and_then (filter_by df ''DEPOT_NAME'' DEPOT_NAME selected_depots) (\<lambda>d1.
     and_then (filter_by d1 ''CITY_NAME'' CITY_NAME selected_cities) (\<lambda>d2.
     filter_by d2 ''ROUTE_NAME'' ROUTE_NAME selected_routes))"

text \<open>Lines 213 to 219: the peak and the off-peak label.\<close>

definition peak_and_off_peak :: "dataframe \<Rightarrow> error + string \<times> string" where
  "peak_and_off_peak filtered_df =
     (if df_empty filtered_df then Inr (''N/A'', ''N/A'')
      else
        and_then (groupby_sum filtered_df ''Time_Interval_Label'' Time_Interval_Label True)
          (\<lambda>temporal_ridership_summary.
        if temporal_ridership_summary = [] then Inr (''N/A'', ''N/A'')
        else
          and_then (idxmax (map (sint \<circ> snd) temporal_ridership_summary)) (\<lambda>i.
          and_then (idxmin (map (sint \<circ> snd) temporal_ridership_summary)) (\<lambda>j.
          Inr (fst (temporal_ridership_summary ! i), fst (temporal_ridership_summary ! j))))))"

text \<open>Lines 263 to 269: the passenger type chart.\<close>

definition passenger_type_chart :: "dataframe \<Rightarrow> error + figure" where
  "passenger_type_chart filtered_df =
     (if ''Passenger Type'' \<in> set (columns filtered_df)
      then and_then (column filtered_df ''Passenger Type'' Passenger_Type) (\<lambda>cs.
           Inr (Pie ''Passenger Type Distribution'' (value_counts_normalize cs)))
      else Inr Empty_Dict)"

text \<open>
  Lines 209 to 271, in the order of the statements. The result is the tuple of the
  \<^verbatim>\<open>return\<close> statement, in its order; Dash assigns its components, by position, to the
  outputs the decorator lists. Here every table is a value; the section on the store
  follows the objects, with the two assignments to \<^verbatim>\<open>.columns\<close> of lines 251 and 267.
\<close>

definition dashboard :: "dataframe \<Rightarrow> error + cards \<times> figure \<times> figure \<times> figure" where
  "dashboard filtered_df =
     and_then (column filtered_df ''PASSENGER_COUNT'' PASSENGER_COUNT) (\<lambda>counts.
     and_then (column filtered_df ''FARE_COLLECTED'' FARE_COLLECTED) (\<lambda>fares.
     and_then (peak_and_off_peak filtered_df) (\<lambda>(peak, off_peak).
     and_then (column filtered_df ''PAYMENT_MODE'' PAYMENT_MODE) (\<lambda>modes.
     and_then (groupby_sum filtered_df ''Time_Interval_Label'' Time_Interval_Label False)
       (\<lambda>temporal_ridership.
     and_then (passenger_type_chart filtered_df) (\<lambda>passenger_chart.
     let cards = \<lparr>total_ridership = sum_list counts, total_revenue = sum_list fares,
                   peak_hour = peak, off_peak_hour = off_peak\<rparr>;
         pie_chart = Pie ''Transaction Type Distribution''
                       (map (\<lambda>(v, n). (v, of_nat n)) (value_counts modes));
         temporal_chart = Bar ''Ridership by 3-Hour Interval'' (sort_key fst temporal_ridership)
     in Inr (cards, temporal_chart, pie_chart, passenger_chart)))))))"

definition update_dashboard ::
  "dataframe \<Rightarrow> selection \<Rightarrow> selection \<Rightarrow> selection \<Rightarrow> error + cards \<times> figure \<times> figure \<times> figure" where
  "update_dashboard df selected_depots selected_cities selected_routes =
     and_then (filtered df selected_depots selected_cities selected_routes) dashboard"

text \<open>The outputs the decorator of \<open>update_dashboard\<close> declares (lines 191 to 194).\<close>

definition dashboard_outputs :: "string list" where
  "dashboard_outputs = [''cards-container'', ''pie-chart-transaction-type'',
     ''temporal-chart-ridership'', ''passenger-type-chart'']"

text \<open>
  Lines 291 to 302. \<open>time_range\<close> is the slider's value, a list. A comparison with a
  missing hour is false.
\<close>

definition in_window :: "int \<Rightarrow> int \<Rightarrow> int option \<Rightarrow> bool" where
  "in_window start_hour end_hour h =
     (case h of Some x \<Rightarrow> start_hour \<le> x \<and> x < end_hour | None \<Rightarrow> False)"

definition area_chart :: "dataframe \<Rightarrow> int list \<Rightarrow> error + figure" where
  "area_chart filtered_df time_range =
     (case time_range of
        [start_hour, end_hour] \<Rightarrow>
          and_then (column filtered_df ''Hour'' Hour) (\<lambda>hours.
          let in_range = bool_index filtered_df (map (in_window start_hour end_hour) hours)
          in and_then (groupby_sum in_range ''Hour'' Hour True) (\<lambda>ridership_by_hour.
             Inr (Area (''Ridership Distribution from '' @ str_int start_hour @ '':00 to ''
                         @ str_int end_hour @ '':00'')
                    ridership_by_hour (start_hour, end_hour))))
      | _ \<Rightarrow> Inl (ValueError ''unpack''))"

definition update_area_chart ::
  "dataframe \<Rightarrow> selection \<Rightarrow> selection \<Rightarrow> selection \<Rightarrow> int list \<Rightarrow> error + figure" where
  "update_area_chart df selected_depots selected_cities selected_routes time_range =
     and_then (filtered df selected_depots selected_cities selected_routes)
       (\<lambda>filtered_df. area_chart filtered_df time_range)"

section \<open>The callbacks on a store of objects\<close>

text \<open>
  Python's tables are objects, which a statement can change in place. A store is the
  list of the objects that exist, an object's address its position; a name of the program
  is bound to an address. The objects are the tables of transactions and the two-column
  tables \<^verbatim>\<open>value_counts().reset_index()\<close> builds. A step of a callback takes the store
  and gives a value or an exception, and the store after it.
\<close>

record counts_table =
  count_columns :: "string list"
  count_rows :: "(cell \<times> rat) list"

datatype obj = Frame dataframe | Counts counts_table

type_synonym store = "obj list"

type_synonym 'a step = "store \<Rightarrow> (error + 'a) \<times> store"

definition return_st :: "'a \<Rightarrow> 'a step" where
  "return_st x s = (Inr x, s)"

definition raise_st :: "error \<Rightarrow> 'a step" where
  "raise_st e s = (Inl e, s)"

definition lift_st :: "error + 'a \<Rightarrow> 'a step" where
  "lift_st r s = (r, s)"

definition bind_st :: "'a step \<Rightarrow> ('a \<Rightarrow> 'b step) \<Rightarrow> 'b step" where
  "bind_st m f s = (case m s of (Inl e, s') \<Rightarrow> (Inl e, s') | (Inr x, s') \<Rightarrow> f x s')"

text \<open>A new object gets the next address; the objects that exist stay as they are.\<close>

definition alloc :: "obj \<Rightarrow> nat step" where
  "alloc ob s = (Inr (length s), s @ [ob])"

text \<open>Reading the object a name is bound to.\<close>

definition frame_at :: "nat \<Rightarrow> dataframe step" where
  "frame_at a s =
     (if a < length s
      then (case s ! a of Frame d \<Rightarrow> (Inr d, s) | Counts t \<Rightarrow> (Inl (TypeError ''DataFrame''), s))
      else (Inl (TypeError ''unbound''), s))"

definition counts_at :: "nat \<Rightarrow> counts_table step" where
  "counts_at a s =
     (if a < length s
      then (case s ! a of Counts t \<Rightarrow> (Inr t, s) | Frame d \<Rightarrow> (Inl (TypeError ''counts''), s))
      else (Inl (TypeError ''unbound''), s))"

definition read :: "nat \<Rightarrow> (dataframe \<Rightarrow> error + 'a) \<Rightarrow> 'a step" where
  "read a f = bind_st (frame_at a) (\<lambda>d. lift_st (f d))"

text \<open>
  The assignment \<^verbatim>\<open>x.columns = names\<close>: it changes the object at the address of
  \<^verbatim>\<open>x\<close> in place, and raises when the number of names is not that of the columns.
\<close>

fun columns_of :: "obj \<Rightarrow> string list" where
  "columns_of (Frame d) = columns d"
| "columns_of (Counts t) = count_columns t"

fun renamed :: "string list \<Rightarrow> obj \<Rightarrow> obj" where
  "renamed names (Frame d) = Frame (d\<lparr>columns := names\<rparr>)"
| "renamed names (Counts t) = Counts (t\<lparr>count_columns := names\<rparr>)"

definition set_columns :: "nat \<Rightarrow> string list \<Rightarrow> unit step" where
  "set_columns a names s =
     (if a < length s
      then (if length names = length (columns_of (s ! a))
            then (Inr (), s[a := renamed names (s ! a)])
            else (Inl (ValueError ''Length mismatch''), s))
      else (Inl (TypeError ''unbound''), s))"

text \<open>
  \<^verbatim>\<open>px.pie(table, values=v, names=n, title=t)\<close> reads the two columns by their names and
  raises when the table has no column of a name. A table of counts has the counted values
  in its first column and the numbers in its second, and the program asks for the names
  from the first and for the values from the second; the chart of any other choice of
  columns is not represented.
\<close>

definition px_pie :: "counts_table \<Rightarrow> string \<Rightarrow> string \<Rightarrow> string \<Rightarrow> error + figure" where
  "px_pie t values names title =
     (if names \<notin> set (count_columns t) then Inl (ValueError names)
      else if values \<notin> set (count_columns t) then Inl (ValueError values)
      else if count_columns t = [names, values] then Inr (Pie title (count_rows t))
      else Inl (ValueError ''columns''))"

text \<open>One filter statement: boolean indexing builds a new table.\<close>

definition filter_by_st :: "nat \<Rightarrow> string \<Rightarrow> (row \<Rightarrow> cell) \<Rightarrow> selection \<Rightarrow> nat step" where
  "filter_by_st a name field sel =
     (case sel of
        None \<Rightarrow> return_st a
      | Some vs \<Rightarrow>
          if vs \<noteq> [] \<and> vs \<noteq> [None]
          then bind_st (read a (\<lambda>d. column d name field)) (\<lambda>cs.
               bind_st (frame_at a) (\<lambda>d.
               alloc (Frame (bool_index d (isin cs vs)))))
          else return_st a)"

text \<open>\<^verbatim>\<open>filtered_df = df.copy()\<close>: a new object with the content of the module's table.\<close>

definition copy_st :: "nat \<Rightarrow> nat step" where
  "copy_st a = bind_st (frame_at a) (\<lambda>d. alloc (Frame d))"

definition set_route_options_st ::
  "nat \<Rightarrow> selection \<Rightarrow> selection \<Rightarrow> (dropdown_option list \<times> string list) step" where
  "set_route_options_st base selected_depots selected_cities =
     bind_st (copy_st base) (\<lambda>a0.
     bind_st (filter_by_st a0 ''DEPOT_NAME'' DEPOT_NAME selected_depots) (\<lambda>a1.
     bind_st (filter_by_st a1 ''CITY_NAME'' CITY_NAME selected_cities) (\<lambda>filtered_df.
     read filtered_df route_options)))"

definition filtered_st :: "nat \<Rightarrow> selection \<Rightarrow> selection \<Rightarrow> selection \<Rightarrow> nat step" where
  "filtered_st base selected_depots selected_cities selected_routes =
     bind_st (copy_st base) (\<lambda>a0.
     bind_st (filter_by_st a0 ''DEPOT_NAME'' DEPOT_NAME selected_depots) (\<lambda>a1.
     bind_st (filter_by_st a1 ''CITY_NAME'' CITY_NAME selected_cities) (\<lambda>a2.
     filter_by_st a2 ''ROUTE_NAME'' ROUTE_NAME selected_routes)))"

text \<open>
  Lines 250 to 252 and 266 to 268: \<^verbatim>\<open>reset_index()\<close> builds the table of counts, the
  assignment to \<^verbatim>\<open>.columns\<close> renames its columns in place, and \<^verbatim>\<open>px.pie\<close> reads them
  from the object.
\<close>

definition counted_pie ::
  "string list \<Rightarrow> (cell \<times> rat) list \<Rightarrow> string list \<Rightarrow> string \<Rightarrow> string \<Rightarrow> string \<Rightarrow> figure step" where
  "counted_pie built_names counts names values_column names_column title =
     bind_st (alloc (Counts \<lparr>count_columns = built_names, count_rows = counts\<rparr>)) (\<lambda>t.
     bind_st (set_columns t names) (\<lambda>u.
     bind_st (counts_at t) (\<lambda>table.
     lift_st (px_pie table values_column names_column title))))"

definition passenger_type_chart_st :: "nat \<Rightarrow> figure step" where
  "passenger_type_chart_st filtered_df =
     bind_st (frame_at filtered_df) (\<lambda>d.
     if ''Passenger Type'' \<in> set (columns d)
     then bind_st (read filtered_df (\<lambda>d. column d ''Passenger Type'' Passenger_Type)) (\<lambda>cs.
          counted_pie [''Passenger Type'', ''proportion''] (value_counts_normalize cs)
            [''Passenger Type'', ''Percentage''] ''Percentage'' ''Passenger Type''
            ''Passenger Type Distribution'')
     else return_st Empty_Dict)"

definition dashboard_st :: "nat \<Rightarrow> (cards \<times> figure \<times> figure \<times> figure) step" where
  "dashboard_st filtered_df =
     bind_st (read filtered_df (\<lambda>d. column d ''PASSENGER_COUNT'' PASSENGER_COUNT)) (\<lambda>counts.
     bind_st (read filtered_df (\<lambda>d. column d ''FARE_COLLECTED'' FARE_COLLECTED)) (\<lambda>fares.
     bind_st (read filtered_df peak_and_off_peak) (\<lambda>(peak, off_peak).
     bind_st (read filtered_df (\<lambda>d. column d ''PAYMENT_MODE'' PAYMENT_MODE)) (\<lambda>modes.
     bind_st (counted_pie [''PAYMENT_MODE'', ''count'']
                (map (\<lambda>(v, n). (v, of_nat n)) (value_counts modes))
                [''PAYMENT_MODE'', ''Count''] ''Count'' ''PAYMENT_MODE''
                ''Transaction Type Distribution'') (\<lambda>pie_chart.
     bind_st (read filtered_df
                (\<lambda>d. groupby_sum d ''Time_Interval_Label'' Time_Interval_Label False))
       (\<lambda>temporal_ridership.
     bind_st (passenger_type_chart_st filtered_df) (\<lambda>passenger_chart.
     return_st
       (\<lparr>total_ridership = sum_list counts, total_revenue = sum_list fares,
          peak_hour = peak, off_peak_hour = off_peak\<rparr>,
        Bar ''Ridership by 3-Hour Interval'' (sort_key fst temporal_ridership),
        pie_chart, passenger_chart))))))))"

definition update_dashboard_st ::
  "nat \<Rightarrow> selection \<Rightarrow> selection \<Rightarrow> selection \<Rightarrow> (cards \<times> figure \<times> figure \<times> figure) step" where
  "update_dashboard_st base selected_depots selected_cities selected_routes =
     bind_st (filtered_st base selected_depots selected_cities selected_routes) dashboard_st"

definition area_chart_st :: "nat \<Rightarrow> int list \<Rightarrow> figure step" where
  "area_chart_st filtered_df time_range =
     (case time_range of
        [start_hour, end_hour] \<Rightarrow>
          bind_st (read filtered_df (\<lambda>d. column d ''Hour'' Hour)) (\<lambda>hours.
          bind_st (frame_at filtered_df) (\<lambda>d.
          bind_st (alloc (Frame (bool_index d (map (in_window start_hour end_hour) hours))))
            (\<lambda>in_range.
          bind_st (read in_range (\<lambda>d. groupby_sum d ''Hour'' Hour True)) (\<lambda>ridership_by_hour.
          return_st
            (Area (''Ridership Distribution from '' @ str_int start_hour @ '':00 to ''
                    @ str_int end_hour @ '':00'')
               ridership_by_hour (start_hour, end_hour))))))
      | _ \<Rightarrow> raise_st (ValueError ''unpack''))"

definition update_area_chart_st ::
  "nat \<Rightarrow> selection \<Rightarrow> selection \<Rightarrow> selection \<Rightarrow> int list \<Rightarrow> figure step" where
  "update_area_chart_st base selected_depots selected_cities selected_routes time_range =
     bind_st (filtered_st base selected_depots selected_cities selected_routes)
       (\<lambda>filtered_df. area_chart_st filtered_df time_range)"

section \<open>What the statements below speak of\<close>

text \<open>
  \<open>matches sel c\<close>: the cell \<open>c\<close> passes the filter of the selection \<open>sel\<close>.
  \<open>somes\<close>: the values that are not missing. \<open>interval_total\<close> and \<open>hour_total\<close>:
  the 64-bit sum of the riders of the rows of one time band, of one hour; \<open>exact_total\<close>:
  the sum of the signed values of a list of counts, as an integer.
\<close>

definition matches :: "selection \<Rightarrow> cell \<Rightarrow> bool" where
  "matches sel c =
     (case sel of
        None \<Rightarrow> True
      | Some vs \<Rightarrow>
          if vs \<noteq> [] \<and> vs \<noteq> [None]
          then (case c of Str s \<Rightarrow> Some s \<in> set vs | NaN \<Rightarrow> None \<in> set vs
                | Num printed \<Rightarrow> False)
          else True)"

fun somes :: "'a option list \<Rightarrow> 'a list" where
  "somes [] = []"
| "somes (None # xs) = somes xs"
| "somes (Some x # xs) = x # somes xs"

definition interval_total :: "row list \<Rightarrow> string \<Rightarrow> int64" where
  "interval_total rs l =
     sum_list (map PASSENGER_COUNT (filter (\<lambda>r. Time_Interval_Label r = Some l) rs))"

definition hour_total :: "row list \<Rightarrow> int \<Rightarrow> int64" where
  "hour_total rs h = sum_list (map PASSENGER_COUNT (filter (\<lambda>r. Hour r = Some h) rs))"

definition exact_total :: "int64 list \<Rightarrow> int" where
  "exact_total ws = sum_list (map sint ws)"

text \<open>The time bands of a table in the order \<^verbatim>\<open>groupby\<close> yields them: ascending.\<close>

definition interval_groups :: "row list \<Rightarrow> string list" where
  "interval_groups rs = sort (unique (somes (map Time_Interval_Label rs)))"

text \<open>
  The tie-break as the specification words it: the time bands in the order in which the
  rows of the table first show them (not sorted), and of the bands of the largest sum the
  first one met.
\<close>

definition first_encountered_groups :: "row list \<Rightarrow> string list" where
  "first_encountered_groups rs = unique (somes (map Time_Interval_Label rs))"

definition first_encountered_peak :: "row list \<Rightarrow> string" where
  "first_encountered_peak rs =
     (case idxmax (map (\<lambda>l. sint (interval_total rs l)) (first_encountered_groups rs)) of
        Inr i \<Rightarrow> first_encountered_groups rs ! i
      | Inl e \<Rightarrow> ''N/A'')"

text \<open>Tables the statements are evaluated on.\<close>

definition ticket :: "cell \<Rightarrow> cell \<Rightarrow> cell \<Rightarrow> nat \<Rightarrow> int64 \<Rightarrow> cell \<Rightarrow> cell \<Rightarrow> row" where
  "ticket city depot route h n mode ptype =
     derive False \<lparr>DEPOT_NAME = depot, CITY_NAME = city, ROUTE_NAME = route,
             PASSENGER_COUNT = n, FARE_COLLECTED = 10 * of_int (sint n), PAYMENT_MODE = mode,
             TICKET_TIME_STAMP = Stamp \<lparr>dt_year = 2025, dt_month = 9, dt_day = 6, dt_hour = h,
                                         dt_minute = 0, dt_second = 0\<rparr>,
             Passenger_Type = ptype, Hour = None, Time_Interval = None,
             Time_Interval_Label = None\<rparr>"

definition loaded_columns :: "string list" where
  "loaded_columns = fallback_columns @ [''Hour'', ''Time_Interval'', ''Time_Interval_Label'']"

text \<open>
  The scenario of the specification: city A, depot X, route 1 at hour 7 (10 riders);
  city A, depot Y, route 2 at hour 7 (5 riders); city B, depot X, route 1 at hour 20
  (3 riders).
\<close>

definition scenario_df :: dataframe where
  "scenario_df = \<lparr>columns = loaded_columns,
     rows = [ticket (Str ''A'') (Str ''X'') (Str ''1'') 7 10 (Str ''Cash'') (Str ''General''),
             ticket (Str ''A'') (Str ''Y'') (Str ''2'') 7 5 (Str ''Card'') (Str ''Student''),
             ticket (Str ''B'') (Str ''X'') (Str ''1'') 20 3 (Str ''Cash'') (Str ''General'')]\<rparr>"

definition city_A_df :: dataframe where
  "city_A_df = \<lparr>columns = loaded_columns,
     rows = [ticket (Str ''A'') (Str ''X'') (Str ''1'') 7 10 (Str ''Cash'') (Str ''General''),
             ticket (Str ''A'') (Str ''Y'') (Str ''2'') 7 5 (Str ''Card'') (Str ''Student'')]\<rparr>"

text \<open>Two tickets of 5 riders each, the first at hour 10, the second at hour 7.\<close>

definition tie_df :: dataframe where
  "tie_df = \<lparr>columns = loaded_columns,
     rows = [ticket (Str ''A'') (Str ''X'') (Str ''1'') 10 5 (Str ''Cash'') (Str ''General''),
             ticket (Str ''A'') (Str ''X'') (Str ''1'') 7 5 (Str ''Cash'') (Str ''General'')]\<rparr>"

text \<open>
  A file of two tickets, the first of city A with an empty time stamp, the second of city B
  at hour 8, and the table \<open>load\<close> makes of it: the hours are floats, the first ticket
  has no time band and the second the band \<^verbatim>\<open>6.0-9.0 hrs\<close>.
\<close>

definition unstamped_csv :: dataframe where
  "unstamped_csv = \<lparr>columns = fallback_columns,
     rows = [(ticket (Str ''A'') (Str ''X'') (Str ''1'') 7 10 (Str ''Cash'') (Str ''General''))
               \<lparr>TICKET_TIME_STAMP := NaT\<rparr>,
             ticket (Str ''B'') (Str ''X'') (Str ''1'') 8 5 (Str ''Cash'') (Str ''General'')]\<rparr>"

definition unstamped_df :: dataframe where
  "unstamped_df = \<lparr>columns = loaded_columns, rows = map (derive True) (rows unstamped_csv)\<rparr>"

text \<open>The table line 16 builds when the file is not found.\<close>

definition fallback_df :: dataframe where
  "fallback_df = \<lparr>columns = fallback_columns, rows = []\<rparr>"

text \<open>Two tickets of one route, whose name is followed by a space in the second.\<close>

definition spaced_route_df :: dataframe where
  "spaced_route_df = \<lparr>columns = loaded_columns,
     rows = [ticket (Str ''A'') (Str ''X'') (Str ''R1'') 7 10 (Str ''Cash'') (Str ''General''),
             ticket (Str ''A'') (Str ''X'') (Str ''R1 '') 8 5 (Str ''Cash'') (Str ''General'')]\<rparr>"

text \<open>Two tickets whose passenger type is missing.\<close>

definition untyped_df :: dataframe where
  "untyped_df = \<lparr>columns = loaded_columns,
     rows = [ticket (Str ''A'') (Str ''X'') (Str ''1'') 7 10 (Str ''Cash'') NaN,
             ticket (Str ''A'') (Str ''X'') (Str ''1'') 8 5 (Str ''Card'') NaN]\<rparr>"

text \<open>Tickets at the hours 18, 6, 17, 5 and again 6.\<close>

definition boundary_df :: dataframe where
  "boundary_df = \<lparr>columns = loaded_columns,
     rows = [ticket (Str ''A'') (Str ''X'') (Str ''1'') 18 9 (Str ''Cash'') (Str ''General''),
             ticket (Str ''A'') (Str ''X'') (Str ''1'') 6 4 (Str ''Cash'') (Str ''General''),
             ticket (Str ''A'') (Str ''X'') (Str ''1'') 17 2 (Str ''Cash'') (Str ''General''),
             ticket (Str ''A'') (Str ''X'') (Str ''1'') 5 7 (Str ''Cash'') (Str ''General''),
             ticket (Str ''A'') (Str ''X'') (Str ''1'') 6 1 (Str ''Cash'') (Str ''General'')]\<rparr>"

text \<open>Two tickets at hour 7 of \<open>2 ^ 62\<close> riders each: their sum is past the 64-bit range.\<close>

definition overflow_df :: dataframe where
  "overflow_df = \<lparr>columns = loaded_columns,
     rows = [ticket (Str ''A'') (Str ''X'') (Str ''1'') 7 (2 ^ 62) (Str ''Cash'') (Str ''General''),
             ticket (Str ''A'') (Str ''X'') (Str ''1'') 7 (2 ^ 62) (Str ''Cash'') (Str ''General'')]\<rparr>"

text \<open>
  Tickets with a route name of two spaces and a city of one; with a route and a city that
  are a no-break space (U+00A0) each; with a city that is a number; with a missing depot
  and a missing route; and with a route that is the float 1.
\<close>

definition blank_names_df :: dataframe where
  "blank_names_df = \<lparr>columns = loaded_columns,
     rows = [ticket (Str ''A '') (Str ''X'') (Str ''  '') 7 10 (Str ''Cash'') (Str ''General''),
             ticket (Str '' '') NaN (Str ''R2'') 8 5 (Str ''Cash'') (Str ''General''),
             ticket (Str [char_of (194 :: nat), char_of (160 :: nat)]) (Str ''X'')
               (Str [char_of (194 :: nat), char_of (160 :: nat)]) 8 5 (Str ''Cash'')
               (Str ''General''),
             ticket (Num ''7'') (Str ''X'') NaN 9 1 (Str ''Cash'') (Str ''General''),
             ticket (Str ''B'') (Str ''X'') (Num ''1.0'') 9 1 (Str ''Cash'')
               (Str ''General'')]\<rparr>"

text \<open>The sum of the values a pie chart plots.\<close>

definition shares_total :: "figure \<Rightarrow> rat" where
  "shares_total f = (case f of Pie title shares \<Rightarrow> sum_list (map snd shares) | _ \<Rightarrow> 0)"

text \<open>The passenger types of the rows that have one.\<close>

definition passenger_types :: "row list \<Rightarrow> cell list" where
  "passenger_types rs = filter notna (map Passenger_Type rs)"

section \<open>Facts about the operations\<close>

subsection \<open>Filters, groups and sums\<close>

lemma and_then_Inl [simp]: "and_then (Inl e) f = Inl e"
  by (simp add: and_then_def)

lemma and_then_Inr [simp]: "and_then (Inr x) f = f x"
  by (simp add: and_then_def)

lemma zip_mask_filter: "map fst (filter snd (zip xs (map p xs))) = filter p xs"
  by (induction xs) auto

lemma chosen_simps [simp]:
  "\<not> chosen None" "\<not> chosen (Some [])" "\<not> chosen (Some [None])"
  by (simp_all add: chosen_def)

lemma filter_by_not_chosen: "\<not> chosen sel \<Longrightarrow> filter_by d name field sel = Inr d"
  by (auto simp: filter_by_def chosen_def split: option.splits)

lemma matches_not_chosen: "\<not> chosen sel \<Longrightarrow> matches sel c"
  by (auto simp: matches_def chosen_def split: option.splits)

lemma isin_matches:
  "vs \<noteq> [] \<Longrightarrow> vs \<noteq> [None] \<Longrightarrow>
   isin (map field rs) vs = map (\<lambda>r. matches (Some vs) (field r)) rs"
  by (simp add: isin_def matches_def)

lemma filter_by_chosen:
  assumes "vs \<noteq> []" "vs \<noteq> [None]"
  shows "filter_by d name field (Some vs) =
     (if name \<notin> set (columns d) then Inl (KeyError name)
      else Inr (d\<lparr>rows := filter (\<lambda>r. matches (Some vs) (field r)) (rows d)\<rparr>))"
  using assms
  by (simp add: filter_by_def column_def bool_index_def isin_matches zip_mask_filter)

lemma filter_by_eq:
  "filter_by d name field sel =
     (if chosen sel \<and> name \<notin> set (columns d) then Inl (KeyError name)
      else Inr (d\<lparr>rows := filter (\<lambda>r. matches sel (field r)) (rows d)\<rparr>))"
proof (cases "chosen sel")
  case False
  then show ?thesis
    by (simp add: filter_by_not_chosen matches_not_chosen)
next
  case True
  then obtain vs where vs: "sel = Some vs" "vs \<noteq> []" "vs \<noteq> [None]"
    by (auto simp: chosen_def split: option.splits)
  show ?thesis
    using True by (simp add: vs filter_by_chosen)
qed

lemma filtered_Inr:
  assumes "filtered df sd sc sr = Inr fd"
  shows "columns fd = columns df \<and>
         rows fd = filter (\<lambda>r. matches sd (DEPOT_NAME r) \<and> matches sc (CITY_NAME r)
                               \<and> matches sr (ROUTE_NAME r)) (rows df)"
  using assms
  by (auto simp: filtered_def filter_by_eq split: if_splits)

lemma filtered_total:
  assumes "{''DEPOT_NAME'', ''CITY_NAME'', ''ROUTE_NAME''} \<subseteq> set (columns df)"
  shows "\<exists>fd. filtered df sd sc sr = Inr fd"
  using assms by (simp add: filtered_def filter_by_eq)

lemma filtered_none: "\<not> chosen sd \<Longrightarrow> \<not> chosen sc \<Longrightarrow> \<not> chosen sr \<Longrightarrow> filtered df sd sc sr = Inr df"
  by (simp add: filtered_def filter_by_not_chosen)

lemma set_unique_from: "set (unique_from seen xs) = set xs - set seen"
  by (induction xs arbitrary: seen) auto

lemma distinct_unique_from: "distinct (unique_from seen xs)"
  by (induction xs arbitrary: seen) (auto simp: set_unique_from)

lemma set_unique [simp]: "set (unique xs) = set xs"
  by (simp add: unique_def set_unique_from)

lemma distinct_unique [simp]: "distinct (unique xs)"
  by (simp add: unique_def distinct_unique_from)

lemma unique_Nil_iff [simp]: "unique xs = [] \<longleftrightarrow> xs = []"
  by (metis set_unique set_empty)

lemma first_best_max:
  assumes "b < i" "length pre = i" "pre ! b = v" "\<forall>k<i. pre ! k \<le> v" "\<forall>k<b. pre ! k < v"
  shows "let r = first_best (\<lambda>a c. c < a) i b v xs in
           r < i + length xs \<and> (\<forall>k < i + length xs. (pre @ xs) ! k \<le> (pre @ xs) ! r)
           \<and> (\<forall>k < r. (pre @ xs) ! k < (pre @ xs) ! r)"
  using assms
proof (induction xs arbitrary: i b v pre)
  case Nil
  then show ?case by (auto simp: Let_def)
next
  case (Cons x xs)
  show ?case
  proof (cases "v < x")
    case True
    have "let r = first_best (\<lambda>a c. c < a) (Suc i) i x xs in
           r < Suc i + length xs \<and> (\<forall>k < Suc i + length xs. ((pre @ [x]) @ xs) ! k \<le> ((pre @ [x]) @ xs) ! r)
           \<and> (\<forall>k < r. ((pre @ [x]) @ xs) ! k < ((pre @ [x]) @ xs) ! r)"
    proof (rule Cons.IH)
      show "i < Suc i" by simp
      show "length (pre @ [x]) = Suc i" using Cons.prems by simp
      show "(pre @ [x]) ! i = x" using Cons.prems by (simp add: nth_append)
      show "\<forall>k<Suc i. (pre @ [x]) ! k \<le> x"
        using Cons.prems True by (auto simp: nth_append less_Suc_eq)
      show "\<forall>k<i. (pre @ [x]) ! k < x"
        using Cons.prems True by (auto simp: nth_append)
    qed
    then show ?thesis using True by simp
  next
    case False
    have "let r = first_best (\<lambda>a c. c < a) (Suc i) b v xs in
           r < Suc i + length xs \<and> (\<forall>k < Suc i + length xs. ((pre @ [x]) @ xs) ! k \<le> ((pre @ [x]) @ xs) ! r)
           \<and> (\<forall>k < r. ((pre @ [x]) @ xs) ! k < ((pre @ [x]) @ xs) ! r)"
    proof (rule Cons.IH)
      show "b < Suc i" using Cons.prems by simp
      show "length (pre @ [x]) = Suc i" using Cons.prems by simp
      show "(pre @ [x]) ! b = v" using Cons.prems by (simp add: nth_append)
      show "\<forall>k<Suc i. (pre @ [x]) ! k \<le> v"
        using Cons.prems False by (auto simp: nth_append less_Suc_eq)
      show "\<forall>k<b. (pre @ [x]) ! k < v"
        using Cons.prems by (auto simp: nth_append)
    qed
    then show ?thesis using False by simp
  qed
qed

lemma first_best_min:
  "first_best (\<lambda>a c. a < c) i b v xs = first_best (\<lambda>a c. c < a) i b (- v) (map uminus xs)"
  by (induction xs arbitrary: i b v) auto

lemma idxmax_first:
  assumes "xs \<noteq> []"
  shows "\<exists>r. idxmax xs = Inr r \<and> r < length xs \<and> (\<forall>k<length xs. xs ! k \<le> xs ! r)
             \<and> (\<forall>k<r. xs ! k < xs ! r)"
proof -
  from assms obtain x t where xs: "xs = x # t" by (cases xs) auto
  have "let r = first_best (\<lambda>a c. c < a) 1 0 x t in
           r < 1 + length t \<and> (\<forall>k < 1 + length t. ([x] @ t) ! k \<le> ([x] @ t) ! r)
           \<and> (\<forall>k < r. ([x] @ t) ! k < ([x] @ t) ! r)"
    by (rule first_best_max) auto
  then show ?thesis
    by (simp add: xs idxmax_def Let_def)
qed

lemma idxmin_first:
  assumes "xs \<noteq> []"
  shows "\<exists>r. idxmin xs = Inr r \<and> r < length xs \<and> (\<forall>k<length xs. xs ! r \<le> xs ! k)
             \<and> (\<forall>k<r. xs ! r < xs ! k)"
proof -
  from assms obtain x t where xs: "xs = x # t" by (cases xs) auto
  define r where "r = first_best (\<lambda>a c. a < c) 1 0 x t"
  have "let r = first_best (\<lambda>a c. c < a) 1 0 (- x) (map uminus t) in
           r < 1 + length (map uminus t)
           \<and> (\<forall>k < 1 + length (map uminus t). ([- x] @ map uminus t) ! k \<le> ([- x] @ map uminus t) ! r)
           \<and> (\<forall>k < r. ([- x] @ map uminus t) ! k < ([- x] @ map uminus t) ! r)"
    by (rule first_best_max) auto
  then have r: "r < length xs" "\<forall>k < length xs. map uminus xs ! k \<le> map uminus xs ! r"
      "\<forall>k < r. map uminus xs ! k < map uminus xs ! r"
    by (simp_all add: xs r_def first_best_min Let_def)
  have le: "\<forall>k<length xs. xs ! r \<le> xs ! k"
  proof (intro allI impI)
    fix k assume k: "k < length xs"
    then have "map uminus xs ! k \<le> map uminus xs ! r" using r(2) by blast
    then show "xs ! r \<le> xs ! k" using k r(1) by simp
  qed
  have less: "\<forall>k<r. xs ! r < xs ! k"
  proof (intro allI impI)
    fix k assume k: "k < r"
    then have "map uminus xs ! k < map uminus xs ! r" using r(3) by blast
    moreover have "k < length xs" using k r(1) by simp
    ultimately show "xs ! r < xs ! k" using r(1) by simp
  qed
  have "idxmin xs = Inr r" by (simp add: xs idxmin_def r_def)
  then show ?thesis using r(1) le less by blast
qed

lemma sort_key_Nil_iff [simp]: "sort_key f xs = [] \<longleftrightarrow> xs = []"
  by (metis length_sort length_0_conv)


lemma somes_eq: "somes xs = map the (filter (\<lambda>x. x \<noteq> None) xs)"
  by (induction xs rule: somes.induct) simp_all

lemma set_somes [simp]: "set (somes xs) = {x. Some x \<in> set xs}"
  by (induction xs rule: somes.induct) auto

lemma keyed_keys: "map fst (keyed (zip (map key rs) (map f rs))) = somes (map key rs)"
proof (induction rs)
  case Nil
  then show ?case by simp
next
  case (Cons r rs)
  then show ?case by (cases "key r") simp_all
qed

lemma keyed_values:
  "map snd (filter (\<lambda>kv. fst kv = k) (keyed (zip (map key rs) (map f rs))))
     = map f (filter (\<lambda>r. key r = Some k) rs)"
proof (induction rs)
  case Nil
  then show ?case by simp
next
  case (Cons r rs)
  then show ?case by (cases "key r") simp_all
qed

lemma group_sum_rows:
  "group_sum b (zip (map key rs) (map PASSENGER_COUNT rs)) =
     map (\<lambda>k. (k, sum_list (map PASSENGER_COUNT (filter (\<lambda>r. key r = Some k) rs))))
       (if b then sort (unique (somes (map key rs))) else unique (somes (map key rs)))"
  by (simp add: group_sum_def Let_def keyed_keys keyed_values)

lemma int64_sum: "sint (sum_list ws :: int64) = signed_take_bit 63 (exact_total ws)"
proof -
  have "(sum_list ws :: int64) = word_of_int (sum_list (map sint ws))"
    by (induction ws) simp_all
  then show ?thesis
    by (simp add: exact_total_def sint_sbintrunc')
qed

lemma int64_sum_exact:
  assumes "- (2 ^ 63) \<le> exact_total ws" and "exact_total ws < 2 ^ 63"
  shows "sint (sum_list ws :: int64) = exact_total ws"
  using assms by (simp add: int64_sum signed_take_bit_int_eq_self)

lemma summary_eq:
  assumes "''Time_Interval_Label'' \<in> set (columns fd)" "''PASSENGER_COUNT'' \<in> set (columns fd)"
  shows "groupby_sum fd ''Time_Interval_Label'' Time_Interval_Label True =
           Inr (map (\<lambda>l. (l, interval_total (rows fd) l)) (interval_groups (rows fd)))"
  using assms
  by (simp add: groupby_sum_def column_def group_sum_rows interval_total_def interval_groups_def)

subsection \<open>The callbacks by value\<close>

lemma peak_and_off_peak_eq:
  assumes cols: "''Time_Interval_Label'' \<in> set (columns fd)" "''PASSENGER_COUNT'' \<in> set (columns fd)"
  shows "\<exists>p q. peak_and_off_peak fd = Inr (p, q) \<and>
     (if interval_groups (rows fd) = [] then p = ''N/A'' \<and> q = ''N/A''
      else (\<exists>i<length (interval_groups (rows fd)). \<exists>j<length (interval_groups (rows fd)).
              p = interval_groups (rows fd) ! i \<and> q = interval_groups (rows fd) ! j
            \<and> (\<forall>k<length (interval_groups (rows fd)).
                  sint (interval_total (rows fd) (interval_groups (rows fd) ! k))
                    \<le> sint (interval_total (rows fd) (interval_groups (rows fd) ! i)))
            \<and> (\<forall>k<i. sint (interval_total (rows fd) (interval_groups (rows fd) ! k))
                    < sint (interval_total (rows fd) (interval_groups (rows fd) ! i)))
            \<and> (\<forall>k<length (interval_groups (rows fd)).
                  sint (interval_total (rows fd) (interval_groups (rows fd) ! j))
                    \<le> sint (interval_total (rows fd) (interval_groups (rows fd) ! k)))
            \<and> (\<forall>k<j. sint (interval_total (rows fd) (interval_groups (rows fd) ! j))
                    < sint (interval_total (rows fd) (interval_groups (rows fd) ! k)))))"
proof (cases "interval_groups (rows fd) = []")
  case True
  have "peak_and_off_peak fd = Inr (''N/A'', ''N/A'')"
    using True by (simp add: peak_and_off_peak_def summary_eq [OF cols])
  then show ?thesis using True by simp
next
  case False
  define ls where "ls = interval_groups (rows fd)"
  define ts where "ts = map (\<lambda>l. sint (interval_total (rows fd) l)) ls"
  have ne: "ls \<noteq> []"
    using False by (simp add: ls_def)
  have len: "length ts = length ls" by (simp add: ts_def)
  have tsne: "ts \<noteq> []" using ne by (simp add: ts_def)
  obtain i where i: "idxmax ts = Inr i" "i < length ts" "\<forall>k<length ts. ts ! k \<le> ts ! i"
      "\<forall>k<i. ts ! k < ts ! i"
    using idxmax_first [OF tsne] by blast
  obtain j where j: "idxmin ts = Inr j" "j < length ts" "\<forall>k<length ts. ts ! j \<le> ts ! k"
      "\<forall>k<j. ts ! j < ts ! k"
    using idxmin_first [OF tsne] by blast
  have rows_ne: "rows fd \<noteq> []"
    using False by (auto simp: interval_groups_def)
  have notempty: "\<not> df_empty fd"
    using rows_ne cols by (auto simp: df_empty_def)
  have snd_eq: "map ((sint \<circ> snd) \<circ> (\<lambda>l. (l, interval_total (rows fd) l))) ls = ts"
    by (simp add: ts_def comp_def)
  have eq: "peak_and_off_peak fd = Inr (ls ! i, ls ! j)"
    using notempty ne i(1,2) j(1,2) len
    by (simp add: peak_and_off_peak_def summary_eq [OF cols] snd_eq flip: ls_def)
  have il: "i < length ls" and jl: "j < length ls"
    using i(2) j(2) len by simp_all
  have i1: "\<forall>k<length ls. sint (interval_total (rows fd) (ls ! k))
                \<le> sint (interval_total (rows fd) (ls ! i))"
    using i(3) il by (simp add: ts_def)
  have i2: "\<forall>k<i. sint (interval_total (rows fd) (ls ! k)) < sint (interval_total (rows fd) (ls ! i))"
  proof (intro allI impI)
    fix k assume k: "k < i"
    then have "ts ! k < ts ! i" using i(4) by blast
    moreover have "k < length ls" using k il by simp
    ultimately show "sint (interval_total (rows fd) (ls ! k)) < sint (interval_total (rows fd) (ls ! i))"
      using il by (simp add: ts_def)
  qed
  have j1: "\<forall>k<length ls. sint (interval_total (rows fd) (ls ! j))
                \<le> sint (interval_total (rows fd) (ls ! k))"
    using j(3) jl by (simp add: ts_def)
  have j2: "\<forall>k<j. sint (interval_total (rows fd) (ls ! j)) < sint (interval_total (rows fd) (ls ! k))"
  proof (intro allI impI)
    fix k assume k: "k < j"
    then have "ts ! j < ts ! k" using j(4) by blast
    moreover have "k < length ls" using k jl by simp
    ultimately show "sint (interval_total (rows fd) (ls ! j)) < sint (interval_total (rows fd) (ls ! k))"
      using jl by (simp add: ts_def)
  qed
  show ?thesis
    unfolding eq ls_def [symmetric] using ne il jl i1 i2 j1 j2 by auto
qed

lemma dashboard_eq:
  assumes "''PASSENGER_COUNT'' \<in> set (columns fd)" "''FARE_COLLECTED'' \<in> set (columns fd)"
    "''PAYMENT_MODE'' \<in> set (columns fd)" "''Time_Interval_Label'' \<in> set (columns fd)"
    and pk: "peak_and_off_peak fd = Inr (p, q)"
  shows "dashboard fd =
     Inr (\<lparr>total_ridership = sum_list (map PASSENGER_COUNT (rows fd)),
            total_revenue = sum_list (map FARE_COLLECTED (rows fd)),
            peak_hour = p, off_peak_hour = q\<rparr>,
          Bar ''Ridership by 3-Hour Interval''
            (sort_key fst (group_sum False (zip (map Time_Interval_Label (rows fd))
                                                (map PASSENGER_COUNT (rows fd))))),
          Pie ''Transaction Type Distribution''
            (map (\<lambda>(v, n). (v, of_nat n)) (value_counts (map PAYMENT_MODE (rows fd)))),
          if ''Passenger Type'' \<in> set (columns fd)
          then Pie ''Passenger Type Distribution''
                 (value_counts_normalize (map Passenger_Type (rows fd)))
          else Empty_Dict)"
  using assms
  by (simp add: dashboard_def column_def groupby_sum_def passenger_type_chart_def)

lemma filtered_fallback: "filtered fallback_df sd sc sr = Inr fallback_df"
  by (simp add: filtered_def filter_by_eq fallback_df_def fallback_columns_def)


lemma area_chart_eq:
  assumes "''Hour'' \<in> set (columns fd)" "''PASSENGER_COUNT'' \<in> set (columns fd)"
  shows "area_chart fd [s, e] =
     Inr (Area (''Ridership Distribution from '' @ str_int s @ '':00 to '' @ str_int e @ '':00'')
            (map (\<lambda>h. (h, hour_total (rows fd) h))
               (sort (unique (somes (map Hour (filter (\<lambda>r. in_window s e (Hour r)) (rows fd)))))))
            (s, e))"
proof -
  define inr where "inr = filter (\<lambda>r. in_window s e (Hour r)) (rows fd)"
  have bi: "bool_index fd (map (in_window s e \<circ> Hour) (rows fd)) = fd\<lparr>rows := inr\<rparr>"
    using zip_mask_filter [of "rows fd" "\<lambda>r. in_window s e (Hour r)"]
    by (simp add: bool_index_def inr_def comp_def)
  have tot: "sum_list (map PASSENGER_COUNT (filter (\<lambda>r. Hour r = Some h) inr)) = hour_total (rows fd) h"
    if "h \<in> set (somes (map Hour inr))" for h
  proof -
    have "in_window s e (Some h)" using that by (auto simp: inr_def)
    then have "filter (\<lambda>r. Hour r = Some h) inr = filter (\<lambda>r. Hour r = Some h) (rows fd)"
      by (auto simp: inr_def intro: filter_cong)
    then show ?thesis by (simp add: hour_total_def)
  qed
  have gs: "group_sum True (zip (map Hour inr) (map PASSENGER_COUNT inr)) =
              map (\<lambda>h. (h, hour_total (rows fd) h)) (sort (unique (somes (map Hour inr))))"
    unfolding group_sum_rows using tot by simp
  show ?thesis
    using assms
    by (simp add: area_chart_def column_def bi groupby_sum_def gs Let_def flip: inr_def)
qed

lemma sum_list_insort_key:
  "sum_list (map g (insort_key f x xs)) = g x + sum_list (map g xs)"
  for g :: "'a \<Rightarrow> 'b::comm_monoid_add"
  by (induction xs) (auto simp: ac_simps)

lemma sum_list_sort_key:
  "sum_list (map g (sort_key f xs)) = sum_list (map g xs)"
  for g :: "'a \<Rightarrow> 'b::comm_monoid_add"
  by (induction xs) (auto simp: sum_list_insort_key)

lemma distinct_map_insort_key:
  "distinct (map g (insort_key f x xs)) = (g x \<notin> g ` set xs \<and> distinct (map g xs))"
  by (induction xs) (auto simp: set_insort_key)

lemma distinct_map_sort_key: "distinct (map g xs) \<Longrightarrow> distinct (map g (sort_key f xs))"
  by (induction xs) (auto simp: distinct_map_insort_key)

lemma of_nat_sum_list: "(of_nat (sum_list ns) :: rat) = sum_list (map of_nat ns)"
  by (induction ns) auto

lemma sum_count_unique: "sum_list (map (count_list xs) (unique xs)) = length xs"
proof -
  have "sum_list (map (count_list xs) (unique xs)) = sum (count_list xs) (set (unique xs))"
    by (rule sum_list_distinct_conv_sum_set) simp
  also have "\<dots> = length xs"
    by (simp add: sum_count_set)
  finally show ?thesis .
qed

lemma value_counts_keys:
  "distinct (map fst (value_counts cs)) \<and> set (map fst (value_counts cs)) = set (filter notna cs)"
proof -
  have "map fst (map (\<lambda>v. (v, count_list (filter notna cs) v)) (unique (filter notna cs)))
          = unique (filter notna cs)"
    by (simp add: comp_def)
  then have d: "distinct (map fst (map (\<lambda>v. (v, count_list (filter notna cs) v))
                   (unique (filter notna cs))))"
    by simp
  have "distinct (map fst (value_counts cs))"
    unfolding value_counts_def Let_def
    by (rule distinct_map_sort_key [OF d])
  moreover have "set (map fst (value_counts cs)) = set (filter notna cs)"
    by (simp add: value_counts_def Let_def image_image)
  ultimately show ?thesis by simp
qed

lemma value_counts_entry:
  "(v, n) \<in> set (value_counts cs) \<Longrightarrow> n = count_list (filter notna cs) v"
  by (auto simp: value_counts_def Let_def)

lemma value_counts_total: "sum_list (map snd (value_counts cs)) = length (filter notna cs)"
proof -
  have "sum_list (map snd (value_counts cs)) =
          sum_list (map snd (map (\<lambda>v. (v, count_list (filter notna cs) v))
                                 (unique (filter notna cs))))"
    unfolding value_counts_def Let_def by (rule sum_list_sort_key)
  also have "\<dots> = sum_list (map (count_list (filter notna cs)) (unique (filter notna cs)))"
    by (simp add: comp_def)
  also have "\<dots> = length (filter notna cs)"
    by (rule sum_count_unique)
  finally show ?thesis .
qed

lemma sum_list_divide:
  "sum_list (map (\<lambda>x. f x / c) xs) = sum_list (map f xs) / c"
  for f :: "'a \<Rightarrow> rat"
  by (induction xs) (auto simp: add_divide_distrib)

lemma normalize_keys: "map fst (value_counts_normalize cs) = map fst (value_counts cs)"
  by (simp add: value_counts_normalize_def Let_def comp_def case_prod_beta)

lemma normalize_entry:
  assumes "(v, p) \<in> set (value_counts_normalize cs)"
  shows "p = of_nat (count_list (filter notna cs) v) / of_nat (length (filter notna cs))"
proof -
  from assms obtain n where n: "(v, n) \<in> set (value_counts cs)"
    and p: "p = of_nat n / of_nat (sum_list (map snd (value_counts cs)))"
    by (auto simp: value_counts_normalize_def Let_def)
  show ?thesis
    using value_counts_entry [OF n] p by (simp add: value_counts_total)
qed

lemma normalize_total:
  assumes "filter notna cs \<noteq> []"
  shows "sum_list (map snd (value_counts_normalize cs)) = 1"
proof -
  define total where "total = sum_list (map snd (value_counts cs))"
  have pos: "total \<noteq> 0"
    using assms by (simp add: total_def value_counts_total)
  have "map snd (value_counts_normalize cs)
          = map (\<lambda>x. of_nat (snd x) / of_nat total) (value_counts cs)"
    by (simp add: value_counts_normalize_def Let_def total_def comp_def case_prod_beta)
  then have "sum_list (map snd (value_counts_normalize cs))
          = sum_list (map (\<lambda>x. of_nat (snd x)) (value_counts cs)) / of_nat total"
    by (simp add: sum_list_divide)
  also have "sum_list (map (\<lambda>x. of_nat (snd x) :: rat) (value_counts cs)) = of_nat total"
    by (simp add: total_def of_nat_sum_list comp_def)
  finally show ?thesis using pos by simp
qed

lemma route_filtered_Inr:
  assumes "route_filtered df sd sc = Inr fd"
  shows "columns fd = columns df \<and>
         rows fd = filter (\<lambda>r. matches sd (DEPOT_NAME r) \<and> matches sc (CITY_NAME r)) (rows df)"
  using assms
  by (auto simp: route_filtered_def filter_by_eq split: if_splits)

lemma route_options_eq:
  assumes "''ROUTE_NAME'' \<in> set (columns fd)"
  shows "route_options fd =
     Inr (map (\<lambda>i. \<lparr>label = i, val = i\<rparr>)
            (sort (map (\<lambda>r. strip (str_cell r))
                     (filter notna (unique (map ROUTE_NAME (rows fd)))))), [])"
  using assms
  by (auto simp: route_options_def df_empty_def column_def unique_def)

lemma clean_options_eq:
  assumes "name \<in> set (columns d)"
  shows "clean_options d name field =
     Inr (map (\<lambda>i. \<lparr>label = strip (str_cell i), val = strip (str_cell i)\<rparr>)
            (filter (\<lambda>i. is_str i \<and> strip (str_cell i) \<noteq> [])
               (unique (filter notna (map field (rows d))))))"
  using assms by (simp add: clean_options_def column_def)

lemma is_str_iff: "is_str i \<longleftrightarrow> (\<exists>w. i = Str w)"
  by (cases i) (simp_all add: is_str_def)

lemma clean_options_vals:
  "val ` set (map (\<lambda>i. \<lparr>label = strip (str_cell i), val = strip (str_cell i)\<rparr>)
            (filter (\<lambda>i. is_str i \<and> strip (str_cell i) \<noteq> [])
               (unique (filter notna cs))))
     = {strip w | w. Str w \<in> set cs \<and> strip w \<noteq> []}"
  (is "?L = ?R")
proof (rule set_eqI)
  fix x
  have "x \<in> ?L \<longleftrightarrow> (\<exists>i \<in> set cs. notna i \<and> is_str i \<and> strip (str_cell i) \<noteq> []
                                \<and> x = strip (str_cell i))"
    by (auto simp: image_iff)
  also have "\<dots> \<longleftrightarrow> (\<exists>w. Str w \<in> set cs \<and> strip w \<noteq> [] \<and> x = strip w)"
  proof
    assume "\<exists>i \<in> set cs. notna i \<and> is_str i \<and> strip (str_cell i) \<noteq> [] \<and> x = strip (str_cell i)"
    then obtain i where i: "i \<in> set cs" "is_str i" "strip (str_cell i) \<noteq> []"
        "x = strip (str_cell i)"
      by blast
    from i(2) obtain w where "i = Str w" by (auto simp: is_str_iff)
    then show "\<exists>w. Str w \<in> set cs \<and> strip w \<noteq> [] \<and> x = strip w"
      using i by auto
  next
    assume "\<exists>w. Str w \<in> set cs \<and> strip w \<noteq> [] \<and> x = strip w"
    then obtain w where w: "Str w \<in> set cs" "strip w \<noteq> []" "x = strip w" by blast
    have "notna (Str w) \<and> is_str (Str w) \<and> strip (str_cell (Str w)) \<noteq> []
            \<and> x = strip (str_cell (Str w))"
      using w by (simp add: notna_def is_str_def)
    then show "\<exists>i \<in> set cs. notna i \<and> is_str i \<and> strip (str_cell i) \<noteq> []
                                \<and> x = strip (str_cell i)"
      using w(1) by blast
  qed
  also have "\<dots> \<longleftrightarrow> x \<in> ?R" by auto
  finally show "x \<in> ?L \<longleftrightarrow> x \<in> ?R" .
qed

subsection \<open>The callbacks on the store\<close>

text \<open>
  A step that reads the table at an address sees the table; the tables of counts are
  built, renamed and read at a new address; and each callback on the store returns what the
  callback by value returns, in a store that begins with the one it started from.
\<close>

lemma bind_st_Inr: "m s = (Inr x, s') \<Longrightarrow> bind_st m f s = f x s'"
  by (simp add: bind_st_def)

lemma bind_st_alloc: "bind_st (alloc ob) f s = f (length s) (s @ [ob])"
  by (simp add: bind_st_def alloc_def)

lemma frame_at_eq: "a < length s \<Longrightarrow> s ! a = Frame d \<Longrightarrow> frame_at a s = (Inr d, s)"
  by (simp add: frame_at_def)

lemma bind_st_frame_at:
  "a < length s \<Longrightarrow> s ! a = Frame d \<Longrightarrow> bind_st (frame_at a) f s = f d s"
  by (simp add: bind_st_def frame_at_eq)

lemma read_eq: "a < length s \<Longrightarrow> s ! a = Frame d \<Longrightarrow> read a g s = (g d, s)"
  by (simp add: read_def bind_st_frame_at lift_st_def)

lemma bind_st_read:
  "a < length s \<Longrightarrow> s ! a = Frame d \<Longrightarrow>
   bind_st (read a g) f s = (case g d of Inl e \<Rightarrow> (Inl e, s) | Inr x \<Rightarrow> f x s)"
  by (simp add: bind_st_def read_eq split: sum.splits)

lemma counted_pie_eq:
  "counted_pie [b1, b2] counts [n, v] v n title s =
     (Inr (Pie title counts), s @ [Counts \<lparr>count_columns = [n, v], count_rows = counts\<rparr>])"
  by (simp add: counted_pie_def alloc_def set_columns_def bind_st_def counts_at_def lift_st_def px_pie_def)

lemma passenger_type_chart_st_sound:
  assumes "a < length s" and "s ! a = Frame fd"
  shows "\<exists>ext. passenger_type_chart_st a s = (passenger_type_chart fd, s @ ext)"
proof (cases "''Passenger Type'' \<in> set (columns fd)")
  case False
  then have "passenger_type_chart_st a s = (passenger_type_chart fd, s @ [])"
    by (simp add: passenger_type_chart_st_def passenger_type_chart_def
        bind_st_frame_at [OF assms] return_st_def)
  then show ?thesis by (rule exI)
next
  case True
  have "passenger_type_chart_st a s = (passenger_type_chart fd,
      s @ [Counts \<lparr>count_columns = [''Passenger Type'', ''Percentage''],
                   count_rows = value_counts_normalize (map Passenger_Type (rows fd))\<rparr>])"
    using True
    by (simp add: passenger_type_chart_st_def passenger_type_chart_def
        bind_st_frame_at [OF assms] bind_st_read [OF assms] column_def counted_pie_eq)
  then show ?thesis by (rule exI)
qed

lemma dashboard_st_sound:
  assumes "a < length s" and "s ! a = Frame fd"
  shows "\<exists>ext. dashboard_st a s = (dashboard fd, s @ ext)"
proof -
  have ext: "a < length (s @ [c])" "(s @ [c]) ! a = Frame fd" for c
    using assms by (simp_all add: nth_append)
  show ?thesis
  proof (cases "column fd ''PASSENGER_COUNT'' PASSENGER_COUNT")
    case (Inl e)
    then have "dashboard_st a s = (dashboard fd, s @ [])"
      by (simp add: dashboard_st_def dashboard_def bind_st_read [OF assms])
    then show ?thesis by (rule exI)
  next
    case c1: (Inr counts)
    show ?thesis
    proof (cases "column fd ''FARE_COLLECTED'' FARE_COLLECTED")
      case (Inl e)
      then have "dashboard_st a s = (dashboard fd, s @ [])"
        by (simp add: dashboard_st_def dashboard_def bind_st_read [OF assms] c1)
      then show ?thesis by (rule exI)
    next
      case c2: (Inr fares)
      show ?thesis
      proof (cases "peak_and_off_peak fd")
        case (Inl e)
        then have "dashboard_st a s = (dashboard fd, s @ [])"
          by (simp add: dashboard_st_def dashboard_def bind_st_read [OF assms] c1 c2)
        then show ?thesis by (rule exI)
      next
        case (Inr po)
        obtain p q where c3: "peak_and_off_peak fd = Inr (p, q)"
          using Inr by (cases po) simp
        show ?thesis
        proof (cases "column fd ''PAYMENT_MODE'' PAYMENT_MODE")
          case (Inl e)
          then have "dashboard_st a s = (dashboard fd, s @ [])"
            by (simp add: dashboard_st_def dashboard_def bind_st_read [OF assms] c1 c2 c3)
          then show ?thesis by (rule exI)
        next
          case c4: (Inr modes)
          define t where "t = Counts \<lparr>count_columns = [''PAYMENT_MODE'', ''Count''],
            count_rows = map (\<lambda>(v, n). (v, of_nat n)) (value_counts modes)\<rparr>"
          have pie: "bind_st (counted_pie [''PAYMENT_MODE'', ''count'']
                (map (\<lambda>(v, n). (v, of_nat n)) (value_counts modes))
                [''PAYMENT_MODE'', ''Count''] ''Count'' ''PAYMENT_MODE''
                ''Transaction Type Distribution'') f s
              = f (Pie ''Transaction Type Distribution''
                     (map (\<lambda>(v, n). (v, of_nat n)) (value_counts modes))) (s @ [t])" for f :: "figure \<Rightarrow> (cards \<times> figure \<times> figure \<times> figure) step"
            unfolding t_def by (rule bind_st_Inr) (rule counted_pie_eq)
          show ?thesis
          proof (cases "groupby_sum fd ''Time_Interval_Label'' Time_Interval_Label False")
            case (Inl e)
            then have "dashboard_st a s = (dashboard fd, s @ [t])"
              by (simp add: dashboard_st_def dashboard_def bind_st_read [OF assms] c1 c2 c3 c4
                  pie bind_st_read [OF ext])
            then show ?thesis by (rule exI)
          next
            case c5: (Inr temporal)
            obtain e2 where
              pt: "passenger_type_chart_st a (s @ [t]) = (passenger_type_chart fd, (s @ [t]) @ e2)"
              using passenger_type_chart_st_sound [OF ext] by blast
            have "dashboard_st a s = (dashboard fd, s @ ([t] @ e2))"
              by (cases "passenger_type_chart fd")
                (simp_all add: dashboard_st_def dashboard_def bind_st_read [OF assms] c1 c2 c3 c4
                  c5 pie bind_st_read [OF ext] bind_st_def [of "passenger_type_chart_st a"] pt
                  return_st_def)
            then show ?thesis by (rule exI)
          qed
        qed
      qed
    qed
  qed
qed

lemma filter_by_st_cases:
  assumes "a < length (s @ e1)" and "(s @ e1) ! a = Frame d"
  obtains (raised) e ext where "filter_by d name field sel = Inl e"
      "filter_by_st a name field sel (s @ e1) = (Inl e, s @ ext)"
  | (kept) d' a' ext where "filter_by d name field sel = Inr d'"
      "filter_by_st a name field sel (s @ e1) = (Inr a', s @ ext)"
      "a' < length (s @ ext)" "(s @ ext) ! a' = Frame d'"
proof (cases "chosen sel")
  case False
  then have "filter_by_st a name field sel (s @ e1) = (Inr a, s @ e1)"
    by (auto simp: filter_by_st_def chosen_def return_st_def split: option.splits)
  moreover have "filter_by d name field sel = Inr d"
    using False by (rule filter_by_not_chosen)
  ultimately show thesis
    using assms by (intro kept [of d a e1])
next
  case True
  then obtain vs where vs: "sel = Some vs" "vs \<noteq> []" "vs \<noteq> [None]"
    by (auto simp: chosen_def split: option.splits)
  show thesis
  proof (cases "name \<in> set (columns d)")
    case False
    then have "filter_by_st a name field sel (s @ e1) = (Inl (KeyError name), s @ e1)"
      using vs by (simp add: filter_by_st_def column_def bind_st_read [OF assms])
    moreover have "filter_by d name field sel = Inl (KeyError name)"
      using vs False by (simp add: filter_by_def column_def)
    ultimately show thesis
      by (intro raised [of "KeyError name" e1])
  next
    case in_cols: True
    define d' where "d' = bool_index d (isin (map field (rows d)) vs)"
    have "filter_by_st a name field sel (s @ e1) = (Inr (length (s @ e1)), s @ (e1 @ [Frame d']))"
      using vs in_cols
      by (simp add: filter_by_st_def column_def bind_st_read [OF assms]
          bind_st_frame_at [OF assms] alloc_def d'_def)
    moreover have "filter_by d name field sel = Inr d'"
      using vs in_cols by (simp add: filter_by_def column_def d'_def)
    moreover have "length (s @ e1) < length (s @ (e1 @ [Frame d']))"
      "(s @ (e1 @ [Frame d'])) ! length (s @ e1) = Frame d'"
      by (simp_all add: nth_append)
    ultimately show thesis
      by (intro kept [of d' "length (s @ e1)" "e1 @ [Frame d']"])
  qed
qed

lemma copy_st_eq:
  "base < length s \<Longrightarrow> s ! base = Frame df \<Longrightarrow> copy_st base s = (Inr (length s), s @ [Frame df])"
  by (simp add: copy_st_def bind_st_frame_at alloc_def)

lemma filtered_st_cases:
  assumes "base < length s" and "s ! base = Frame df"
  obtains (raised) e ext where "filtered df sd sc sr = Inl e"
      "filtered_st base sd sc sr s = (Inl e, s @ ext)"
  | (kept) fd a ext where "filtered df sd sc sr = Inr fd"
      "filtered_st base sd sc sr s = (Inr a, s @ ext)"
      "a < length (s @ ext)" "(s @ ext) ! a = Frame fd"
proof -
  have a0: "length s < length (s @ [Frame df])" "(s @ [Frame df]) ! length s = Frame df"
    by simp_all
  have unf: "filtered_st base sd sc sr s =
      bind_st (filter_by_st (length s) ''DEPOT_NAME'' DEPOT_NAME sd) (\<lambda>a1.
      bind_st (filter_by_st a1 ''CITY_NAME'' CITY_NAME sc) (\<lambda>a2.
      filter_by_st a2 ''ROUTE_NAME'' ROUTE_NAME sr)) (s @ [Frame df])"
    by (simp add: filtered_st_def bind_st_Inr [where m = "copy_st base", OF copy_st_eq [OF assms]])
  show thesis
  proof (rule filter_by_st_cases [OF a0,
        where name = "''DEPOT_NAME''" and field = DEPOT_NAME and sel = sd])
    fix e ext
    assume "filter_by df ''DEPOT_NAME'' DEPOT_NAME sd = Inl e"
      "filter_by_st (length s) ''DEPOT_NAME'' DEPOT_NAME sd (s @ [Frame df]) = (Inl e, s @ ext)"
    then show thesis
      by (intro raised [of e ext]) (simp_all add: unf filtered_def bind_st_def)
  next
    fix d1 a1 ext1
    assume k1: "filter_by df ''DEPOT_NAME'' DEPOT_NAME sd = Inr d1"
      "filter_by_st (length s) ''DEPOT_NAME'' DEPOT_NAME sd (s @ [Frame df]) = (Inr a1, s @ ext1)"
      "a1 < length (s @ ext1)" "(s @ ext1) ! a1 = Frame d1"
    show thesis
    proof (rule filter_by_st_cases [OF k1(3) k1(4),
          where name = "''CITY_NAME''" and field = CITY_NAME and sel = sc])
      fix e ext
      assume "filter_by d1 ''CITY_NAME'' CITY_NAME sc = Inl e"
        "filter_by_st a1 ''CITY_NAME'' CITY_NAME sc (s @ ext1) = (Inl e, s @ ext)"
      then show thesis
        using k1 by (intro raised [of e ext]) (simp_all add: unf filtered_def bind_st_def)
    next
      fix d2 a2 ext2
      assume k2: "filter_by d1 ''CITY_NAME'' CITY_NAME sc = Inr d2"
        "filter_by_st a1 ''CITY_NAME'' CITY_NAME sc (s @ ext1) = (Inr a2, s @ ext2)"
        "a2 < length (s @ ext2)" "(s @ ext2) ! a2 = Frame d2"
      show thesis
      proof (rule filter_by_st_cases [OF k2(3) k2(4),
            where name = "''ROUTE_NAME''" and field = ROUTE_NAME and sel = sr])
        fix e ext
        assume "filter_by d2 ''ROUTE_NAME'' ROUTE_NAME sr = Inl e"
          "filter_by_st a2 ''ROUTE_NAME'' ROUTE_NAME sr (s @ ext2) = (Inl e, s @ ext)"
        then show thesis
          using k1 k2 by (intro raised [of e ext]) (simp_all add: unf filtered_def bind_st_def)
      next
        fix d3 a3 ext3
        assume k3: "filter_by d2 ''ROUTE_NAME'' ROUTE_NAME sr = Inr d3"
          "filter_by_st a2 ''ROUTE_NAME'' ROUTE_NAME sr (s @ ext2) = (Inr a3, s @ ext3)"
          "a3 < length (s @ ext3)" "(s @ ext3) ! a3 = Frame d3"
        then show thesis
          using k1 k2 by (intro kept [of d3 a3 ext3]) (simp_all add: unf filtered_def bind_st_def)
      qed
    qed
  qed
qed

lemma set_route_options_st_sound:
  assumes "base < length s" and "s ! base = Frame df"
  shows "\<exists>ext. set_route_options_st base sd sc s = (set_route_options df sd sc, s @ ext)"
proof -
  have a0: "length s < length (s @ [Frame df])" "(s @ [Frame df]) ! length s = Frame df"
    by simp_all
  have unf: "set_route_options_st base sd sc s =
      bind_st (filter_by_st (length s) ''DEPOT_NAME'' DEPOT_NAME sd) (\<lambda>a1.
      bind_st (filter_by_st a1 ''CITY_NAME'' CITY_NAME sc) (\<lambda>filtered_df.
      read filtered_df route_options)) (s @ [Frame df])"
    by (simp add: set_route_options_st_def bind_st_Inr [where m = "copy_st base", OF copy_st_eq [OF assms]])
  show ?thesis
  proof (rule filter_by_st_cases [OF a0,
        where name = "''DEPOT_NAME''" and field = DEPOT_NAME and sel = sd])
    fix e ext
    assume "filter_by df ''DEPOT_NAME'' DEPOT_NAME sd = Inl e"
      "filter_by_st (length s) ''DEPOT_NAME'' DEPOT_NAME sd (s @ [Frame df]) = (Inl e, s @ ext)"
    then show ?thesis
      by (simp add: unf set_route_options_def route_filtered_def bind_st_def)
  next
    fix d1 a1 ext1
    assume k1: "filter_by df ''DEPOT_NAME'' DEPOT_NAME sd = Inr d1"
      "filter_by_st (length s) ''DEPOT_NAME'' DEPOT_NAME sd (s @ [Frame df]) = (Inr a1, s @ ext1)"
      "a1 < length (s @ ext1)" "(s @ ext1) ! a1 = Frame d1"
    show ?thesis
    proof (rule filter_by_st_cases [OF k1(3) k1(4),
          where name = "''CITY_NAME''" and field = CITY_NAME and sel = sc])
      fix e ext
      assume "filter_by d1 ''CITY_NAME'' CITY_NAME sc = Inl e"
        "filter_by_st a1 ''CITY_NAME'' CITY_NAME sc (s @ ext1) = (Inl e, s @ ext)"
      then show ?thesis
        using k1 by (simp add: unf set_route_options_def route_filtered_def bind_st_def)
    next
      fix d2 a2 ext2
      assume k2: "filter_by d1 ''CITY_NAME'' CITY_NAME sc = Inr d2"
        "filter_by_st a1 ''CITY_NAME'' CITY_NAME sc (s @ ext1) = (Inr a2, s @ ext2)"
        "a2 < length (s @ ext2)" "(s @ ext2) ! a2 = Frame d2"
      have "set_route_options_st base sd sc s = (set_route_options df sd sc, s @ ext2)"
        using k1 k2(1,2)
        by (simp add: unf set_route_options_def route_filtered_def bind_st_def
            read_eq [OF k2(3) k2(4)] del: length_append)
      then show ?thesis by (rule exI)
    qed
  qed
qed

lemma update_dashboard_st_sound:
  assumes "base < length s" and "s ! base = Frame df"
  shows "\<exists>ext. update_dashboard_st base sd sc sr s = (update_dashboard df sd sc sr, s @ ext)"
proof (rule filtered_st_cases [OF assms, where sd = sd and sc = sc and sr = sr])
  fix e ext
  assume "filtered df sd sc sr = Inl e" "filtered_st base sd sc sr s = (Inl e, s @ ext)"
  then show ?thesis
    by (simp add: update_dashboard_st_def update_dashboard_def bind_st_def)
next
  fix fd a ext
  assume k: "filtered df sd sc sr = Inr fd" "filtered_st base sd sc sr s = (Inr a, s @ ext)"
    "a < length (s @ ext)" "(s @ ext) ! a = Frame fd"
  obtain e2 where "dashboard_st a (s @ ext) = (dashboard fd, (s @ ext) @ e2)"
    using dashboard_st_sound [OF k(3) k(4)] by blast
  then have "update_dashboard_st base sd sc sr s = (update_dashboard df sd sc sr, s @ (ext @ e2))"
    using k(1,2) by (simp add: update_dashboard_st_def update_dashboard_def bind_st_def)
  then show ?thesis by (rule exI)
qed

lemma area_chart_st_sound:
  assumes "a < length s" and "s ! a = Frame fd"
  shows "\<exists>ext. area_chart_st a tr s = (area_chart fd tr, s @ ext)"
proof (cases "\<exists>x y. tr = [x, y]")
  case False
  then have "area_chart_st a tr s = (area_chart fd tr, s @ [])"
    by (auto simp: area_chart_st_def area_chart_def raise_st_def split: list.splits)
  then show ?thesis by (rule exI)
next
  case True
  then obtain x y where tr: "tr = [x, y]" by blast
  show ?thesis
  proof (cases "column fd ''Hour'' Hour")
    case (Inl e)
    then have "area_chart_st a tr s = (area_chart fd tr, s @ [])"
      by (simp add: tr area_chart_st_def area_chart_def bind_st_read [OF assms])
    then show ?thesis by (rule exI)
  next
    case (Inr hours)
    define w where "w = bool_index fd (map (in_window x y) hours)"
    have f: "length s < length (s @ [Frame w])" "(s @ [Frame w]) ! length s = Frame w"
      by simp_all
    have "area_chart_st a tr s = (area_chart fd tr, s @ [Frame w])"
      using Inr
      by (simp add: tr area_chart_st_def area_chart_def bind_st_read [OF assms]
          bind_st_frame_at [OF assms] bind_st_alloc bind_st_read [OF f] w_def [symmetric]
          return_st_def and_then_def Let_def split: sum.splits)
    then show ?thesis by (rule exI)
  qed
qed

lemma update_area_chart_st_sound:
  assumes "base < length s" and "s ! base = Frame df"
  shows "\<exists>ext. update_area_chart_st base sd sc sr tr s
            = (update_area_chart df sd sc sr tr, s @ ext)"
proof (rule filtered_st_cases [OF assms, where sd = sd and sc = sc and sr = sr])
  fix e ext
  assume "filtered df sd sc sr = Inl e" "filtered_st base sd sc sr s = (Inl e, s @ ext)"
  then show ?thesis
    by (simp add: update_area_chart_st_def update_area_chart_def bind_st_def)
next
  fix fd a ext
  assume k: "filtered df sd sc sr = Inr fd" "filtered_st base sd sc sr s = (Inr a, s @ ext)"
    "a < length (s @ ext)" "(s @ ext) ! a = Frame fd"
  obtain e2 where "area_chart_st a tr (s @ ext) = (area_chart fd tr, (s @ ext) @ e2)"
    using area_chart_st_sound [OF k(3) k(4)] by blast
  then have "update_area_chart_st base sd sc sr tr s
      = (update_area_chart df sd sc sr tr, s @ (ext @ e2))"
    using k(1,2) by (simp add: update_area_chart_st_def update_area_chart_def bind_st_def)
  then show ?thesis by (rule exI)
qed

section \<open>The statements of the specification\<close>

text \<open>
  C1. \<open>load\<close> on a missing file gives the table of line 16, whose columns are the eight
  of the file and none of the three derived ones. On that table, whatever is selected,
  \<open>update_dashboard\<close> ends in the \<^verbatim>\<open>KeyError\<close> of line 256 and \<open>update_area_chart\<close>
  in the \<^verbatim>\<open>KeyError\<close> of line 292: neither completes.
\<close>

theorem fallback_table_raises:
  "load None = Inr fallback_df
   \<and> update_dashboard fallback_df sd sc sr = Inl (KeyError ''Time_Interval_Label'')
   \<and> update_area_chart fallback_df sd sc sr [s, e] = Inl (KeyError ''Hour'')"
proof -
  have "dashboard fallback_df = Inl (KeyError ''Time_Interval_Label'')"
    by (simp add: dashboard_def column_def peak_and_off_peak_def df_empty_def groupby_sum_def
        fallback_df_def fallback_columns_def)
  moreover have "area_chart fallback_df [s, e] = Inl (KeyError ''Hour'')"
    by (simp add: area_chart_def column_def fallback_df_def fallback_columns_def)
  ultimately show ?thesis
    by (simp add: load_def fallback_df_def [symmetric] update_dashboard_def
        update_area_chart_def filtered_fallback)
qed

text \<open>
  C2. On the scenario's table with nothing selected, the second component of the result
  is the bar chart of the time bands and the third the pie chart of the payment modes,
  while the second declared output is the pie chart's and the third the bar chart's.
\<close>

theorem dashboard_result_order:
  "update_dashboard scenario_df None None None =
     Inr (\<lparr>total_ridership = 18, total_revenue = 180, peak_hour = ''06-09 hrs'',
            off_peak_hour = ''18-21 hrs''\<rparr>,
          Bar ''Ridership by 3-Hour Interval'' [(''06-09 hrs'', 15), (''18-21 hrs'', 3)],
          Pie ''Transaction Type Distribution'' [(Str ''Cash'', 2), (Str ''Card'', 1)],
          Pie ''Passenger Type Distribution'' [(Str ''General'', 2 / 3), (Str ''Student'', 1 / 3)])
   \<and> dashboard_outputs ! 1 = ''pie-chart-transaction-type''
   \<and> dashboard_outputs ! 2 = ''temporal-chart-ridership''"
  by code_simp

text \<open>
  C3. The claim as it stands fails on a tie. In \<open>tie_df\<close> the band first met in the rows
  is \<^verbatim>\<open>09-12 hrs\<close>, and it has the sum of \<^verbatim>\<open>06-09 hrs\<close>; first met, it would be the
  peak, but the card shows \<^verbatim>\<open>06-09 hrs\<close>: the \<^verbatim>\<open>groupby\<close> of line 216 sorts the bands by
  label.
\<close>

theorem peak_first_encountered_counterexample:
  "filtered tie_df None None None = Inr tie_df
   \<and> map Time_Interval_Label (rows tie_df) = [Some ''09-12 hrs'', Some ''06-09 hrs'']
   \<and> map PASSENGER_COUNT (rows tie_df) = [5, 5]
   \<and> first_encountered_peak (rows tie_df) = ''09-12 hrs''
   \<and> peak_hour (fst (projr (update_dashboard tie_df None None None))) = ''06-09 hrs''
   \<and> peak_hour (fst (projr (update_dashboard tie_df None None None)))
       \<noteq> first_encountered_peak (rows tie_df)"
  by code_simp

text \<open>
  C3, amended. Whenever the filters succeed and the table has the columns the dashboard
  reads, \<open>update_dashboard\<close> returns, and its cards carry these labels. Take the time
  bands of the filtered rows, \<open>interval_groups\<close>: the distinct labels that are not
  missing, ascending, which is the order \<^verbatim>\<open>groupby\<close> yields them in. If there is none, as
  when there is no row, both labels are \<open>''N/A''\<close>. Otherwise the peak label is the band
  at the first position whose sum of \<^verbatim>\<open>PASSENGER_COUNT\<close> is the largest (every band has
  at most that sum, every earlier band less), and the off-peak label the band at the first
  position whose sum is the smallest: of the bands of one sum the one with the smallest
  label is reported. The sums are the signed 64-bit sums of the program: the exact sum
  wrapped into the 64-bit range.
\<close>

theorem peak_and_off_peak_labels:
  assumes "set [''PASSENGER_COUNT'', ''FARE_COLLECTED'', ''PAYMENT_MODE'',
                ''Time_Interval_Label''] \<subseteq> set (columns df)"
    and "filtered df sd sc sr = Inr fd"
  shows "\<exists>c f1 f2 f3. update_dashboard df sd sc sr = Inr (c, f1, f2, f3) \<and>
     sorted (interval_groups (rows fd)) \<and> distinct (interval_groups (rows fd)) \<and>
     set (interval_groups (rows fd)) = {l. \<exists>r \<in> set (rows fd). Time_Interval_Label r = Some l} \<and>
     (\<forall>l. sint (interval_total (rows fd) l) =
            signed_take_bit 63 (exact_total (map PASSENGER_COUNT
              (filter (\<lambda>r. Time_Interval_Label r = Some l) (rows fd))))) \<and>
     (rows fd = [] \<longrightarrow> peak_hour c = ''N/A'' \<and> off_peak_hour c = ''N/A'') \<and>
     (if interval_groups (rows fd) = [] then peak_hour c = ''N/A'' \<and> off_peak_hour c = ''N/A''
      else (\<exists>i<length (interval_groups (rows fd)). \<exists>j<length (interval_groups (rows fd)).
              peak_hour c = interval_groups (rows fd) ! i
            \<and> off_peak_hour c = interval_groups (rows fd) ! j
            \<and> (\<forall>k<length (interval_groups (rows fd)).
                  sint (interval_total (rows fd) (interval_groups (rows fd) ! k))
                    \<le> sint (interval_total (rows fd) (interval_groups (rows fd) ! i)))
            \<and> (\<forall>k<i. sint (interval_total (rows fd) (interval_groups (rows fd) ! k))
                    < sint (interval_total (rows fd) (interval_groups (rows fd) ! i)))
            \<and> (\<forall>k<length (interval_groups (rows fd)).
                  sint (interval_total (rows fd) (interval_groups (rows fd) ! j))
                    \<le> sint (interval_total (rows fd) (interval_groups (rows fd) ! k)))
            \<and> (\<forall>k<j. sint (interval_total (rows fd) (interval_groups (rows fd) ! j))
                    < sint (interval_total (rows fd) (interval_groups (rows fd) ! k)))))"
proof -
  have cols: "columns fd = columns df"
    using filtered_Inr [OF assms(2)] by simp
  have c4: "''PASSENGER_COUNT'' \<in> set (columns fd)" "''FARE_COLLECTED'' \<in> set (columns fd)"
    "''PAYMENT_MODE'' \<in> set (columns fd)" "''Time_Interval_Label'' \<in> set (columns fd)"
    using assms(1) cols by simp_all
  obtain p q where pq: "peak_and_off_peak fd = Inr (p, q)"
    and lab: "if interval_groups (rows fd) = [] then p = ''N/A'' \<and> q = ''N/A''
      else (\<exists>i<length (interval_groups (rows fd)). \<exists>j<length (interval_groups (rows fd)).
              p = interval_groups (rows fd) ! i \<and> q = interval_groups (rows fd) ! j
            \<and> (\<forall>k<length (interval_groups (rows fd)).
                  sint (interval_total (rows fd) (interval_groups (rows fd) ! k))
                    \<le> sint (interval_total (rows fd) (interval_groups (rows fd) ! i)))
            \<and> (\<forall>k<i. sint (interval_total (rows fd) (interval_groups (rows fd) ! k))
                    < sint (interval_total (rows fd) (interval_groups (rows fd) ! i)))
            \<and> (\<forall>k<length (interval_groups (rows fd)).
                  sint (interval_total (rows fd) (interval_groups (rows fd) ! j))
                    \<le> sint (interval_total (rows fd) (interval_groups (rows fd) ! k)))
            \<and> (\<forall>k<j. sint (interval_total (rows fd) (interval_groups (rows fd) ! j))
                    < sint (interval_total (rows fd) (interval_groups (rows fd) ! k))))"
    using peak_and_off_peak_eq [OF c4(4) c4(1)] by blast
  have ord: "sorted (interval_groups (rows fd)) \<and> distinct (interval_groups (rows fd)) \<and>
     set (interval_groups (rows fd)) = {l. \<exists>r \<in> set (rows fd). Time_Interval_Label r = Some l}"
    by (auto simp: interval_groups_def image_iff intro: rev_bexI)
  have wrap: "\<forall>l. sint (interval_total (rows fd) l) =
            signed_take_bit 63 (exact_total (map PASSENGER_COUNT
              (filter (\<lambda>r. Time_Interval_Label r = Some l) (rows fd))))"
    by (simp add: interval_total_def int64_sum)
  have none: "rows fd = [] \<longrightarrow> p = ''N/A'' \<and> q = ''N/A''"
    using lab by (auto simp: interval_groups_def)
  have ud: "update_dashboard df sd sc sr = dashboard fd"
    by (simp add: update_dashboard_def assms(2))
  show ?thesis
    unfolding ud dashboard_eq [OF c4 pq]
    apply (intro exI conjI)
          apply (rule refl)
         apply (rule ord [THEN conjunct1])
        apply (rule ord [THEN conjunct2, THEN conjunct1])
       apply (rule ord [THEN conjunct2, THEN conjunct2])
      apply (rule wrap)
     apply (simp only: cards.select_convs)
     apply (rule none)
    apply (simp only: cards.select_convs)
    apply (rule lab)
    done
qed

text \<open>
  On the scenario with city A selected there is one band. On \<open>tie_df\<close> the two bands
  have one sum, and both labels are the smaller one. On \<open>unstamped_df\<close> with city A
  selected there is a row and no band (the guard of line 217), and the labels are
  \<open>''N/A''\<close>.
\<close>

theorem peak_and_off_peak_labels_witness:
  "set [''PASSENGER_COUNT'', ''FARE_COLLECTED'', ''PAYMENT_MODE'', ''Time_Interval_Label'']
     \<subseteq> set (columns scenario_df)
   \<and> filtered scenario_df None (Some [Some ''A'']) None = Inr city_A_df
   \<and> rows city_A_df \<noteq> []
   \<and> interval_groups (rows city_A_df) = [''06-09 hrs'']
   \<and> (\<exists>c f1 f2 f3. update_dashboard scenario_df None (Some [Some ''A'']) None = Inr (c, f1, f2, f3)
        \<and> peak_hour c = ''06-09 hrs'' \<and> off_peak_hour c = ''06-09 hrs'')
   \<and> interval_groups (rows tie_df) = [''06-09 hrs'', ''09-12 hrs'']
   \<and> off_peak_hour (fst (projr (update_dashboard tie_df None None None))) = ''06-09 hrs''
   \<and> load (Some unstamped_csv) = Inr unstamped_df
   \<and> map Time_Interval_Label (rows unstamped_df) = [None, Some ''6.0-9.0 hrs'']
   \<and> map Time_Interval_Label (rows (projr (filtered unstamped_df None (Some [Some ''A'']) None)))
       = [None]
   \<and> peak_hour (fst (projr (update_dashboard unstamped_df None (Some [Some ''A'']) None))) = ''N/A''
   \<and> peak_hour (fst (projr (update_dashboard unstamped_df None None None))) = ''6.0-9.0 hrs''"
proof -
  have a: "set [''PASSENGER_COUNT'', ''FARE_COLLECTED'', ''PAYMENT_MODE'', ''Time_Interval_Label'']
     \<subseteq> set (columns scenario_df)"
    by code_simp
  have b: "filtered scenario_df None (Some [Some ''A'']) None = Inr city_A_df"
    by code_simp
  have c: "rows city_A_df \<noteq> []"
    by code_simp
  have d: "interval_groups (rows city_A_df) = [''06-09 hrs'']"
    by code_simp
  have e: "interval_groups (rows tie_df) = [''06-09 hrs'', ''09-12 hrs'']"
    by code_simp
  have f: "off_peak_hour (fst (projr (update_dashboard tie_df None None None))) = ''06-09 hrs''"
    by code_simp
  have g: "load (Some unstamped_csv) = Inr unstamped_df"
    by code_simp
  have h: "map Time_Interval_Label (rows unstamped_df) = [None, Some ''6.0-9.0 hrs'']"
    by code_simp
  have i: "map Time_Interval_Label
      (rows (projr (filtered unstamped_df None (Some [Some ''A'']) None))) = [None]"
    by code_simp
  have j: "peak_hour (fst (projr (update_dashboard unstamped_df None (Some [Some ''A'']) None)))
      = ''N/A''"
    by code_simp
  have k: "peak_hour (fst (projr (update_dashboard unstamped_df None None None))) = ''6.0-9.0 hrs''"
    by code_simp
  have "\<exists>c f1 f2 f3. update_dashboard scenario_df None (Some [Some ''A'']) None = Inr (c, f1, f2, f3)
        \<and> peak_hour c = ''06-09 hrs'' \<and> off_peak_hour c = ''06-09 hrs''"
    using peak_and_off_peak_labels [OF a b] c d by auto
  then show ?thesis
    using a b c d e f g h i j k by (intro conjI)
qed

text \<open>
  C4. On a table whose two tickets name the route \<^verbatim>\<open>'R1'\<close> and \<^verbatim>\<open>'R1 '\<close>, the options
  hold the trimmed name twice: \<^verbatim>\<open>unique()\<close> runs on the names as stored, \<^verbatim>\<open>strip()\<close>
  after it.
\<close>

theorem route_options_repeat_a_name:
  "set_route_options spaced_route_df None None =
     Inr ([\<lparr>label = ''R1'', val = ''R1''\<rparr>, \<lparr>label = ''R1'', val = ''R1''\<rparr>], [])
   \<and> \<not> distinct (map val (fst (projr (set_route_options spaced_route_df None None))))"
  by code_simp

text \<open>
  C5. The claim as it stands fails on a table with rows and with the passenger type column
  when no ticket has a passenger type: \<^verbatim>\<open>value_counts\<close> leaves missing values out,
  the distribution is empty and its fractions sum to 0.
\<close>

theorem passenger_type_shares_counterexample:
  "update_dashboard untyped_df None None None =
     Inr (\<lparr>total_ridership = 15, total_revenue = 150, peak_hour = ''06-09 hrs'',
            off_peak_hour = ''06-09 hrs''\<rparr>,
          Bar ''Ridership by 3-Hour Interval'' [(''06-09 hrs'', 15)],
          Pie ''Transaction Type Distribution'' [(Str ''Cash'', 1), (Str ''Card'', 1)],
          Pie ''Passenger Type Distribution'' [])
   \<and> ''Passenger Type'' \<in> set (columns untyped_df)
   \<and> filtered untyped_df None None None = Inr untyped_df
   \<and> rows untyped_df \<noteq> []
   \<and> shares_total (snd (snd (snd (projr (update_dashboard untyped_df None None None))))) = 0"
  by code_simp

text \<open>
  C5, amended. Whenever the filters succeed and the table has the columns the dashboard
  reads, \<open>update_dashboard\<close> returns. If the table has the passenger type column, the
  fourth component is the pie chart of a distribution that has one entry for every
  distinct passenger type that is not missing; the entry of a type is the number of
  filtered rows of that type divided by the number of filtered rows whose type is not
  missing; and if at least one filtered row has a type, the entries sum to 1. If the table
  has no such column, the fourth component is the empty dictionary, which is no pie chart.
  (The fractions are exact rationals, of which the program's floats are the roundings.)
\<close>

theorem passenger_type_shares:
  assumes "set [''PASSENGER_COUNT'', ''FARE_COLLECTED'', ''PAYMENT_MODE'',
                ''Time_Interval_Label''] \<subseteq> set (columns df)"
    and "filtered df sd sc sr = Inr fd"
  shows "\<exists>c f1 f2 f3. update_dashboard df sd sc sr = Inr (c, f1, f2, f3) \<and>
     (if ''Passenger Type'' \<in> set (columns df)
      then (\<exists>shares. f3 = Pie ''Passenger Type Distribution'' shares
              \<and> distinct (map fst shares)
              \<and> set (map fst shares) = set (passenger_types (rows fd))
              \<and> (\<forall>(v, p) \<in> set shares.
                    p = of_nat (count_list (passenger_types (rows fd)) v)
                          / of_nat (length (passenger_types (rows fd))))
              \<and> (passenger_types (rows fd) \<noteq> [] \<longrightarrow> sum_list (map snd shares) = 1))
      else f3 = Empty_Dict \<and> (\<forall>title shares. f3 \<noteq> Pie title shares))"
proof -
  have cols: "columns fd = columns df"
    using filtered_Inr [OF assms(2)] by simp
  have c4: "''PASSENGER_COUNT'' \<in> set (columns fd)" "''FARE_COLLECTED'' \<in> set (columns fd)"
    "''PAYMENT_MODE'' \<in> set (columns fd)" "''Time_Interval_Label'' \<in> set (columns fd)"
    using assms(1) cols by simp_all
  obtain p q where pq: "peak_and_off_peak fd = Inr (p, q)"
    using peak_and_off_peak_eq [OF c4(4) c4(1)] by blast
  have ud: "update_dashboard df sd sc sr = dashboard fd"
    by (simp add: update_dashboard_def assms(2))
  define shares where "shares = value_counts_normalize (map Passenger_Type (rows fd))"
  have pt: "passenger_types (rows fd) = filter notna (map Passenger_Type (rows fd))"
    by (simp add: passenger_types_def)
  have s1: "distinct (map fst shares)"
    and s2: "set (map fst shares) = set (passenger_types (rows fd))"
    using value_counts_keys [of "map Passenger_Type (rows fd)"]
    by (simp_all add: shares_def normalize_keys pt)
  have s3: "\<forall>(v, p) \<in> set shares.
                    p = of_nat (count_list (passenger_types (rows fd)) v)
                          / of_nat (length (passenger_types (rows fd)))"
    using normalize_entry [of _ _ "map Passenger_Type (rows fd)"]
    by (auto simp: shares_def pt)
  have s4: "passenger_types (rows fd) \<noteq> [] \<longrightarrow> sum_list (map snd shares) = 1"
    using normalize_total [of "map Passenger_Type (rows fd)"]
    by (simp add: shares_def pt)
  show ?thesis
  proof (cases "''Passenger Type'' \<in> set (columns df)")
    case True
    then show ?thesis
      using s1 s2 s3 s4 unfolding ud dashboard_eq [OF c4 pq] cols shares_def [symmetric]
      by simp
  next
    case False
    then show ?thesis
      unfolding ud dashboard_eq [OF c4 pq] cols by simp
  qed
qed

theorem passenger_type_shares_witness:
  "set [''PASSENGER_COUNT'', ''FARE_COLLECTED'', ''PAYMENT_MODE'', ''Time_Interval_Label'']
     \<subseteq> set (columns scenario_df)
   \<and> filtered scenario_df None None None = Inr scenario_df
   \<and> ''Passenger Type'' \<in> set (columns scenario_df)
   \<and> passenger_types (rows scenario_df) = [Str ''General'', Str ''Student'', Str ''General'']
   \<and> (\<exists>c f1 f2 shares. update_dashboard scenario_df None None None
          = Inr (c, f1, f2, Pie ''Passenger Type Distribution'' shares)
        \<and> sum_list (map snd shares) = 1)"
proof -
  have a: "set [''PASSENGER_COUNT'', ''FARE_COLLECTED'', ''PAYMENT_MODE'', ''Time_Interval_Label'']
     \<subseteq> set (columns scenario_df)"
    by code_simp
  have b: "filtered scenario_df None None None = Inr scenario_df"
    by (simp add: filtered_none)
  have c: "''Passenger Type'' \<in> set (columns scenario_df)"
    by code_simp
  have d: "passenger_types (rows scenario_df) = [Str ''General'', Str ''Student'', Str ''General'']"
    by code_simp
  show ?thesis
    using passenger_type_shares [OF a b] a b c d by auto
qed

text \<open>
  C6. With an empty or absent selection in all three dimensions, the filters of the chart
  callbacks return the table as it is, and so do the two filters of
  \<open>set_route_options\<close>; no column is read, so this holds for every table.
\<close>

theorem filter_without_selection:
  assumes "sd = None \<or> sd = Some []" and "sc = None \<or> sc = Some []"
    and "sr = None \<or> sr = Some []"
  shows "filtered df sd sc sr = Inr df \<and> route_filtered df sd sc = Inr df"
  using assms by (auto simp: filtered_def route_filtered_def filter_by_def)

theorem filter_without_selection_witness:
  "filtered scenario_df None (Some []) None = Inr scenario_df
   \<and> route_filtered scenario_df None (Some []) = Inr scenario_df"
  using filter_without_selection [of None "Some []" None scenario_df] by simp

text \<open>
  C7. The claim as it stands fails where the sum of an hour leaves the 64-bit range: two
  tickets at hour 7 of \<open>2 ^ 62\<close> riders each have the sum \<open>2 ^ 63\<close>, and the series
  reports the 64-bit pattern of that value, which reads as \<open>- (2 ^ 63)\<close>.
\<close>

theorem hour_window_series_counterexample:
  "update_area_chart overflow_df None None None [6, 18] =
     Inr (Area ''Ridership Distribution from 6:00 to 18:00'' [(7, 9223372036854775808)] (6, 18))
   \<and> map Hour (rows overflow_df) = [Some 7, Some 7]
   \<and> map (sint \<circ> PASSENGER_COUNT) (rows overflow_df) = [4611686018427387904, 4611686018427387904]
   \<and> exact_total (map PASSENGER_COUNT (rows overflow_df)) = 9223372036854775808
   \<and> sint (9223372036854775808 :: int64) = - 9223372036854775808
   \<and> sint (hour_total (rows overflow_df) 7) \<noteq> exact_total (map PASSENGER_COUNT (rows overflow_df))"
  by code_simp

text \<open>
  C7, amended. Whenever the filters succeed and the table has the columns \<^verbatim>\<open>Hour\<close> and
  \<^verbatim>\<open>PASSENGER_COUNT\<close>, \<open>update_area_chart\<close> with the range \<open>[s, e]\<close> returns an
  area chart over \<open>(s, e)\<close> whose series has one entry for every hour \<open>h\<close> with
  \<open>s \<le> h < e\<close> that a filtered row has, and no other (a row whose hour is missing is
  in no window); the entries ascend by hour; and the entry of \<open>h\<close> is the 64-bit sum of
  \<^verbatim>\<open>PASSENGER_COUNT\<close> over the filtered rows of that hour: the exact sum wrapped into
  the 64-bit range, so the exact sum whenever that lies in the range.
\<close>

theorem hour_window_series:
  assumes "set [''Hour'', ''PASSENGER_COUNT''] \<subseteq> set (columns df)"
    and "filtered df sd sc sr = Inr fd"
  shows "\<exists>title hours.
     update_area_chart df sd sc sr [s, e] =
       Inr (Area title (map (\<lambda>h. (h, hour_total (rows fd) h)) hours) (s, e))
     \<and> sorted hours \<and> distinct hours
     \<and> set hours = {h. \<exists>r \<in> set (rows fd). Hour r = Some h \<and> s \<le> h \<and> h < e}
     \<and> (\<forall>h. sint (hour_total (rows fd) h) =
              signed_take_bit 63 (exact_total (map PASSENGER_COUNT
                (filter (\<lambda>r. Hour r = Some h) (rows fd)))))
     \<and> (\<forall>h. - (2 ^ 63) \<le> exact_total (map PASSENGER_COUNT (filter (\<lambda>r. Hour r = Some h) (rows fd)))
            \<and> exact_total (map PASSENGER_COUNT (filter (\<lambda>r. Hour r = Some h) (rows fd))) < 2 ^ 63
            \<longrightarrow> sint (hour_total (rows fd) h)
                  = exact_total (map PASSENGER_COUNT (filter (\<lambda>r. Hour r = Some h) (rows fd))))"
proof -
  have cols: "columns fd = columns df"
    using filtered_Inr [OF assms(2)] by simp
  have c2: "''Hour'' \<in> set (columns fd)" "''PASSENGER_COUNT'' \<in> set (columns fd)"
    using assms(1) cols by simp_all
  define hours where
    "hours = sort (unique (somes (map Hour (filter (\<lambda>r. in_window s e (Hour r)) (rows fd)))))"
  have r: "update_area_chart df sd sc sr [s, e] =
       Inr (Area (''Ridership Distribution from '' @ str_int s @ '':00 to '' @ str_int e @ '':00'')
              (map (\<lambda>h. (h, hour_total (rows fd) h)) hours) (s, e))"
    by (simp add: update_area_chart_def assms(2) area_chart_eq [OF c2] hours_def)
  have so: "sorted hours" and di: "distinct hours"
    by (simp_all add: hours_def)
  have se: "set hours = {h. \<exists>r \<in> set (rows fd). Hour r = Some h \<and> s \<le> h \<and> h < e}"
    by (auto simp: hours_def in_window_def image_iff split: option.splits intro: rev_bexI)
  have wr: "\<forall>h. sint (hour_total (rows fd) h) =
              signed_take_bit 63 (exact_total (map PASSENGER_COUNT
                (filter (\<lambda>r. Hour r = Some h) (rows fd))))"
    by (simp add: hour_total_def int64_sum)
  have ex: "\<forall>h. - (2 ^ 63) \<le> exact_total (map PASSENGER_COUNT (filter (\<lambda>r. Hour r = Some h) (rows fd)))
            \<and> exact_total (map PASSENGER_COUNT (filter (\<lambda>r. Hour r = Some h) (rows fd))) < 2 ^ 63
            \<longrightarrow> sint (hour_total (rows fd) h)
                  = exact_total (map PASSENGER_COUNT (filter (\<lambda>r. Hour r = Some h) (rows fd)))"
    by (simp add: hour_total_def int64_sum_exact)
  show ?thesis
    apply (rule exI [of _ "''Ridership Distribution from '' @ str_int s @ '':00 to '' @ str_int e @ '':00''"])
    apply (rule exI [of _ hours])
    apply (intro conjI)
         apply (rule r so di se wr ex)+
    done
qed

theorem hour_window_series_witness:
  "set [''Hour'', ''PASSENGER_COUNT''] \<subseteq> set (columns boundary_df)
   \<and> filtered boundary_df None None None = Inr boundary_df
   \<and> map Hour (rows boundary_df) = [Some 18, Some 6, Some 17, Some 5, Some 6]
   \<and> map PASSENGER_COUNT (rows boundary_df) = [9, 4, 2, 7, 1]
   \<and> update_area_chart boundary_df None None None [6, 18] =
       Inr (Area ''Ridership Distribution from 6:00 to 18:00'' [(6, 5), (17, 2)] (6, 18))
   \<and> (\<exists>title hours.
        update_area_chart boundary_df None None None [6, 18] =
          Inr (Area title (map (\<lambda>h. (h, hour_total (rows boundary_df) h)) hours) (6, 18))
        \<and> hours = [6, 17])"
proof -
  have a: "set [''Hour'', ''PASSENGER_COUNT''] \<subseteq> set (columns boundary_df)"
    by code_simp
  have b: "filtered boundary_df None None None = Inr boundary_df"
    by (simp add: filtered_none)
  have c: "map Hour (rows boundary_df) = [Some 18, Some 6, Some 17, Some 5, Some 6]"
    by code_simp
  have c': "map PASSENGER_COUNT (rows boundary_df) = [9, 4, 2, 7, 1]"
    by code_simp
  have d: "update_area_chart boundary_df None None None [6, 18] =
       Inr (Area ''Ridership Distribution from 6:00 to 18:00'' [(6, 5), (17, 2)] (6, 18))"
    by code_simp
  from hour_window_series [OF a b, of 6 18]
  obtain title hours where h:
     "update_area_chart boundary_df None None None [6, 18] =
          Inr (Area title (map (\<lambda>h. (h, hour_total (rows boundary_df) h)) hours) (6, 18))
     \<and> sorted hours \<and> distinct hours
     \<and> set hours = {h. \<exists>r \<in> set (rows boundary_df). Hour r = Some h \<and> 6 \<le> h \<and> h < 18}
     \<and> (\<forall>h. sint (hour_total (rows boundary_df) h) =
              signed_take_bit 63 (exact_total (map PASSENGER_COUNT
                (filter (\<lambda>r. Hour r = Some h) (rows boundary_df)))))
     \<and> (\<forall>h. - (2 ^ 63) \<le> exact_total (map PASSENGER_COUNT (filter (\<lambda>r. Hour r = Some h) (rows boundary_df)))
            \<and> exact_total (map PASSENGER_COUNT (filter (\<lambda>r. Hour r = Some h) (rows boundary_df))) < 2 ^ 63
            \<longrightarrow> sint (hour_total (rows boundary_df) h)
                  = exact_total (map PASSENGER_COUNT (filter (\<lambda>r. Hour r = Some h) (rows boundary_df))))"
    by (elim exE) (erule that)
  have h1: "update_area_chart boundary_df None None None [6, 18] =
          Inr (Area title (map (\<lambda>h. (h, hour_total (rows boundary_df) h)) hours) (6, 18))"
    and h2: "sorted hours" and h3: "distinct hours"
    and h4: "set hours = {h. \<exists>r \<in> set (rows boundary_df). Hour r = Some h \<and> 6 \<le> h \<and> h < 18}"
    using h by simp_all
  have "{h. \<exists>r \<in> set (rows boundary_df). Hour r = Some h \<and> 6 \<le> h \<and> h < 18}
          = {h. Some h \<in> set (map Hour (rows boundary_df)) \<and> 6 \<le> h \<and> h < 18}"
    by (auto simp: image_iff intro: rev_bexI)
  also have "\<dots> = set [6, 17]"
    unfolding c by auto
  finally have "set hours = set [6, 17]"
    using h4 by simp
  moreover have "sorted [6, 17 :: int]" "distinct [6, 17 :: int]" by simp_all
  ultimately have "hours = [6, 17]"
    using h2 h3 sorted_distinct_set_unique by blast
  then have last: "\<exists>title hours.
        update_area_chart boundary_df None None None [6, 18] =
          Inr (Area title (map (\<lambda>h. (h, hour_total (rows boundary_df) h)) hours) (6, 18))
        \<and> hours = [6, 17]"
    using h1 by blast
  show ?thesis
    by (intro conjI) (rule a b c c' d last)+
qed

text \<open>
  C8. The module's table is the object at the address \<open>base\<close> of the store. The
  callbacks do write to objects in place: \<open>update_dashboard\<close> renames the columns of the
  two tables of counts (lines 251 and 267). Each of these writes goes to an object the call
  itself has built, so each of the three callbacks leaves every object that existed before
  the call as it was (the store after the call begins with the store before it), and the
  table at \<open>base\<close> is unchanged, whatever the selection and whether or not the callback
  raises. What the callback returns is what it computes from that table by value: the
  renamed columns are the ones \<^verbatim>\<open>px.pie\<close> then reads.
\<close>

theorem callbacks_leave_the_table:
  assumes "base < length s" and "s ! base = Frame df"
  shows "snd (set_route_options_st base sd sc s) ! base = Frame df
       \<and> snd (update_dashboard_st base sd sc sr s) ! base = Frame df
       \<and> snd (update_area_chart_st base sd sc sr tr s) ! base = Frame df
       \<and> take (length s) (snd (set_route_options_st base sd sc s)) = s
       \<and> take (length s) (snd (update_dashboard_st base sd sc sr s)) = s
       \<and> take (length s) (snd (update_area_chart_st base sd sc sr tr s)) = s
       \<and> fst (set_route_options_st base sd sc s) = set_route_options df sd sc
       \<and> fst (update_dashboard_st base sd sc sr s) = update_dashboard df sd sc sr
       \<and> fst (update_area_chart_st base sd sc sr tr s) = update_area_chart df sd sc sr tr"
proof -
  obtain e1 where e1:
    "set_route_options_st base sd sc s = (set_route_options df sd sc, s @ e1)"
    using set_route_options_st_sound [OF assms] by blast
  obtain e2 where e2:
    "update_dashboard_st base sd sc sr s = (update_dashboard df sd sc sr, s @ e2)"
    using update_dashboard_st_sound [OF assms] by blast
  obtain e3 where e3:
    "update_area_chart_st base sd sc sr tr s = (update_area_chart df sd sc sr tr, s @ e3)"
    using update_area_chart_st_sound [OF assms] by blast
  show ?thesis
    using assms by (simp add: e1 e2 e3 nth_append)
qed

text \<open>
  On the scenario with city A selected: the store after \<open>update_dashboard\<close> holds the
  module's table, its copy, the filtered table and the two tables of counts under their new
  column names. The same assignment to \<^verbatim>\<open>.columns\<close>, were it made at the address of the
  module's table, would change it.
\<close>

theorem callbacks_leave_the_table_witness:
  "(0::nat) < length [Frame scenario_df]
   \<and> [Frame scenario_df] ! 0 = Frame scenario_df
   \<and> snd (update_dashboard_st 0 None (Some [Some ''A'']) None [Frame scenario_df])
       = [Frame scenario_df, Frame scenario_df, Frame city_A_df,
          Counts \<lparr>count_columns = [''PAYMENT_MODE'', ''Count''],
                  count_rows = [(Str ''Cash'', 1), (Str ''Card'', 1)]\<rparr>,
          Counts \<lparr>count_columns = [''Passenger Type'', ''Percentage''],
                  count_rows = [(Str ''General'', 1 / 2), (Str ''Student'', 1 / 2)]\<rparr>]
   \<and> snd (update_dashboard_st 0 None (Some [Some ''A'']) None [Frame scenario_df]) ! 0
       = Frame scenario_df
   \<and> fst (update_dashboard_st 0 None (Some [Some ''A'']) None [Frame scenario_df])
       = update_dashboard scenario_df None (Some [Some ''A'']) None
   \<and> fst (set_columns 0 (rev loaded_columns) [Frame scenario_df]) = Inr ()
   \<and> snd (set_columns 0 (rev loaded_columns) [Frame scenario_df]) ! 0 \<noteq> Frame scenario_df"
proof -
  have a: "(0::nat) < length [Frame scenario_df]"
    by simp
  have a': "[Frame scenario_df] ! 0 = Frame scenario_df"
    by simp
  have b: "snd (update_dashboard_st 0 None (Some [Some ''A'']) None [Frame scenario_df])
       = [Frame scenario_df, Frame scenario_df, Frame city_A_df,
          Counts \<lparr>count_columns = [''PAYMENT_MODE'', ''Count''],
                  count_rows = [(Str ''Cash'', 1), (Str ''Card'', 1)]\<rparr>,
          Counts \<lparr>count_columns = [''Passenger Type'', ''Percentage''],
                  count_rows = [(Str ''General'', 1 / 2), (Str ''Student'', 1 / 2)]\<rparr>]"
    by code_simp
  have c: "fst (set_columns 0 (rev loaded_columns) [Frame scenario_df]) = Inr ()"
    by code_simp
  have d: "snd (set_columns 0 (rev loaded_columns) [Frame scenario_df]) ! 0 \<noteq> Frame scenario_df"
    by code_simp
  have t: "snd (update_dashboard_st 0 None (Some [Some ''A'']) None [Frame scenario_df]) ! 0
       = Frame scenario_df
     \<and> fst (update_dashboard_st 0 None (Some [Some ''A'']) None [Frame scenario_df])
       = update_dashboard scenario_df None (Some [Some ''A'']) None"
    using callbacks_leave_the_table [OF a a', where sd = None and sc = "Some [Some ''A'']"
        and sr = None]
    by simp
  show ?thesis
    using a a' b c d t by (intro conjI) simp_all
qed

text \<open>
  C9. In each of the three callbacks and in each dimension, the selection \<^verbatim>\<open>[None]\<close>
  gives the result of the absent selection and of the empty one.
\<close>

theorem none_entry_is_no_selection:
  "set_route_options df (Some [None]) sc = set_route_options df None sc
   \<and> set_route_options df (Some [None]) sc = set_route_options df (Some []) sc
   \<and> set_route_options df sd (Some [None]) = set_route_options df sd None
   \<and> set_route_options df sd (Some [None]) = set_route_options df sd (Some [])
   \<and> update_dashboard df (Some [None]) sc sr = update_dashboard df None sc sr
   \<and> update_dashboard df (Some [None]) sc sr = update_dashboard df (Some []) sc sr
   \<and> update_dashboard df sd (Some [None]) sr = update_dashboard df sd None sr
   \<and> update_dashboard df sd (Some [None]) sr = update_dashboard df sd (Some []) sr
   \<and> update_dashboard df sd sc (Some [None]) = update_dashboard df sd sc None
   \<and> update_dashboard df sd sc (Some [None]) = update_dashboard df sd sc (Some [])
   \<and> update_area_chart df (Some [None]) sc sr tr = update_area_chart df None sc sr tr
   \<and> update_area_chart df (Some [None]) sc sr tr = update_area_chart df (Some []) sc sr tr
   \<and> update_area_chart df sd (Some [None]) sr tr = update_area_chart df sd None sr tr
   \<and> update_area_chart df sd (Some [None]) sr tr = update_area_chart df sd (Some []) sr tr
   \<and> update_area_chart df sd sc (Some [None]) tr = update_area_chart df sd sc None tr
   \<and> update_area_chart df sd sc (Some [None]) tr = update_area_chart df sd sc (Some []) tr"
proof -
  have f: "\<And>d name field. filter_by d name field (Some [None]) = Inr d"
      "\<And>d name field. filter_by d name field (Some []) = Inr d"
      "\<And>d name field. filter_by d name field None = Inr d"
    by (simp_all add: filter_by_def)
  show ?thesis
    by (simp add: set_route_options_def route_filtered_def update_dashboard_def
        update_area_chart_def filtered_def f)
qed

theorem none_entry_is_no_selection_witness:
  "update_dashboard scenario_df (Some [None]) None None =
     Inr (\<lparr>total_ridership = 18, total_revenue = 180, peak_hour = ''06-09 hrs'',
            off_peak_hour = ''18-21 hrs''\<rparr>,
          Bar ''Ridership by 3-Hour Interval'' [(''06-09 hrs'', 15), (''18-21 hrs'', 3)],
          Pie ''Transaction Type Distribution'' [(Str ''Cash'', 2), (Str ''Card'', 1)],
          Pie ''Passenger Type Distribution'' [(Str ''General'', 2 / 3), (Str ''Student'', 1 / 3)])"
proof -
  have "update_dashboard scenario_df None None None =
     Inr (\<lparr>total_ridership = 18, total_revenue = 180, peak_hour = ''06-09 hrs'',
            off_peak_hour = ''18-21 hrs''\<rparr>,
          Bar ''Ridership by 3-Hour Interval'' [(''06-09 hrs'', 15), (''18-21 hrs'', 3)],
          Pie ''Transaction Type Distribution'' [(Str ''Cash'', 2), (Str ''Card'', 1)],
          Pie ''Passenger Type Distribution'' [(Str ''General'', 2 / 3), (Str ''Student'', 1 / 3)])"
    by code_simp
  then show ?thesis
    using none_entry_is_no_selection [where df = scenario_df and sc = None and sr = None] by simp
qed

text \<open>
  C10. Whenever the table has the three name columns, the route options are the trimmed
  names of the route cells of the city and depot filtered rows that are not missing (of a
  number, what \<^verbatim>\<open>str()\<close> prints): a route name of white space only gives the option with
  the empty label and value. The city and the depot options are the trimmed strings of the
  string cells of their column whose trimmed string is not empty: a blank string, a number
  and a missing cell give no option. Every option's label is its value. Trimming is that of
  \<^verbatim>\<open>str.strip()\<close>, which takes the white space of Unicode off both ends: a name that is a
  no-break space is blank as one of spaces is.
\<close>

theorem blank_route_names_are_options:
  assumes "set [''DEPOT_NAME'', ''CITY_NAME'', ''ROUTE_NAME''] \<subseteq> set (columns df)"
    and "route_filtered df sd sc = Inr fd"
  shows "\<exists>opts copts dopts.
       set_route_options df sd sc = Inr (opts, [])
     \<and> city_options df = Inr copts
     \<and> depot_options df = Inr dopts
     \<and> val ` set opts = {strip (str_cell c) | c. c \<in> set (map ROUTE_NAME (rows fd)) \<and> c \<noteq> NaN}
     \<and> (\<forall>w. Str w \<in> set (map ROUTE_NAME (rows fd)) \<and> strip w = []
            \<longrightarrow> \<lparr>label = [], val = []\<rparr> \<in> set opts)
     \<and> val ` set copts = {strip w | w. Str w \<in> set (map CITY_NAME (rows df)) \<and> strip w \<noteq> []}
     \<and> val ` set dopts = {strip w | w. Str w \<in> set (map DEPOT_NAME (rows df)) \<and> strip w \<noteq> []}
     \<and> (\<forall>opt \<in> set opts \<union> set copts \<union> set dopts. label opt = val opt)"
proof -
  have cols: "columns fd = columns df"
    using route_filtered_Inr [OF assms(2)] by simp
  have c3: "''DEPOT_NAME'' \<in> set (columns df)" "''CITY_NAME'' \<in> set (columns df)"
    "''ROUTE_NAME'' \<in> set (columns fd)"
    using assms(1) cols by simp_all
  define names where
    "names = sort (map (\<lambda>r. strip (str_cell r)) (filter notna (unique (map ROUTE_NAME (rows fd)))))"
  define opts where "opts = map (\<lambda>i. \<lparr>label = i, val = i\<rparr>) names"
  define copts where "copts = map (\<lambda>i. \<lparr>label = strip (str_cell i), val = strip (str_cell i)\<rparr>)
            (filter (\<lambda>i. is_str i \<and> strip (str_cell i) \<noteq> [])
               (unique (filter notna (map CITY_NAME (rows df)))))"
  define dopts where "dopts = map (\<lambda>i. \<lparr>label = strip (str_cell i), val = strip (str_cell i)\<rparr>)
            (filter (\<lambda>i. is_str i \<and> strip (str_cell i) \<noteq> [])
               (unique (filter notna (map DEPOT_NAME (rows df)))))"
  have r: "set_route_options df sd sc = Inr (opts, [])"
    by (simp add: set_route_options_def assms(2) route_options_eq [OF c3(3)] opts_def names_def)
  have c: "city_options df = Inr copts"
    by (simp add: city_options_def clean_options_eq [OF c3(2)] copts_def)
  have d: "depot_options df = Inr dopts"
    by (simp add: depot_options_def clean_options_eq [OF c3(1)] dopts_def)
  have sn: "set names = {strip (str_cell c) | c. c \<in> set (map ROUTE_NAME (rows fd)) \<and> c \<noteq> NaN}"
    by (auto simp: names_def notna_def)
  have vo: "val ` set opts = set names"
    by (auto simp: opts_def image_iff)
  have v1: "val ` set opts = {strip (str_cell c) | c. c \<in> set (map ROUTE_NAME (rows fd)) \<and> c \<noteq> NaN}"
    using vo sn by simp
  have v2: "\<forall>w. Str w \<in> set (map ROUTE_NAME (rows fd)) \<and> strip w = []
            \<longrightarrow> \<lparr>label = [], val = []\<rparr> \<in> set opts"
  proof (intro allI impI)
    fix w assume w: "Str w \<in> set (map ROUTE_NAME (rows fd)) \<and> strip w = []"
    then have "strip (str_cell (Str w)) \<in> set names"
      unfolding sn by blast
    then have "[] \<in> set names" using w by simp
    then show "\<lparr>label = [], val = []\<rparr> \<in> set opts"
      by (auto simp: opts_def)
  qed
  have v3: "val ` set copts = {strip w | w. Str w \<in> set (map CITY_NAME (rows df)) \<and> strip w \<noteq> []}"
    unfolding copts_def by (rule clean_options_vals)
  have v4: "val ` set dopts = {strip w | w. Str w \<in> set (map DEPOT_NAME (rows df)) \<and> strip w \<noteq> []}"
    unfolding dopts_def by (rule clean_options_vals)
  have v5: "\<forall>opt \<in> set opts \<union> set copts \<union> set dopts. label opt = val opt"
    by (auto simp: opts_def copts_def dopts_def)
  show ?thesis
    apply (rule exI [of _ opts], rule exI [of _ copts], rule exI [of _ dopts])
    apply (intro conjI)
    apply (rule r c d v1 v2 v3 v4 v5)+
    done
qed

theorem blank_route_names_are_options_witness:
  "set [''DEPOT_NAME'', ''CITY_NAME'', ''ROUTE_NAME''] \<subseteq> set (columns blank_names_df)
   \<and> route_filtered blank_names_df None None = Inr blank_names_df
   \<and> map ROUTE_NAME (rows blank_names_df)
       = [Str ''  '', Str ''R2'', Str [char_of (194 :: nat), char_of (160 :: nat)], NaN,
          Num ''1.0'']
   \<and> map CITY_NAME (rows blank_names_df)
       = [Str ''A '', Str '' '', Str [char_of (194 :: nat), char_of (160 :: nat)], Num ''7'',
          Str ''B'']
   \<and> map DEPOT_NAME (rows blank_names_df) = [Str ''X'', NaN, Str ''X'', Str ''X'', Str ''X'']
   \<and> strip ''  '' = []
   \<and> strip [char_of (194 :: nat), char_of (160 :: nat)] = []
   \<and> set_route_options blank_names_df None None
       = Inr ([\<lparr>label = [], val = []\<rparr>, \<lparr>label = [], val = []\<rparr>,
               \<lparr>label = ''1.0'', val = ''1.0''\<rparr>, \<lparr>label = ''R2'', val = ''R2''\<rparr>], [])
   \<and> city_options blank_names_df = Inr [\<lparr>label = ''A'', val = ''A''\<rparr>, \<lparr>label = ''B'', val = ''B''\<rparr>]
   \<and> depot_options blank_names_df = Inr [\<lparr>label = ''X'', val = ''X''\<rparr>]
   \<and> (\<exists>opts. set_route_options blank_names_df None None = Inr (opts, [])
         \<and> \<lparr>label = [], val = []\<rparr> \<in> set opts)"
proof -
  have a: "set [''DEPOT_NAME'', ''CITY_NAME'', ''ROUTE_NAME''] \<subseteq> set (columns blank_names_df)"
    by code_simp
  have b: "route_filtered blank_names_df None None = Inr blank_names_df"
    by (simp add: route_filtered_def filter_by_def)
  have c: "map ROUTE_NAME (rows blank_names_df)
       = [Str ''  '', Str ''R2'', Str [char_of (194 :: nat), char_of (160 :: nat)], NaN,
          Num ''1.0'']"
    by code_simp
  have d: "map CITY_NAME (rows blank_names_df)
       = [Str ''A '', Str '' '', Str [char_of (194 :: nat), char_of (160 :: nat)], Num ''7'',
          Str ''B'']"
    by code_simp
  have d': "map DEPOT_NAME (rows blank_names_df) = [Str ''X'', NaN, Str ''X'', Str ''X'', Str ''X'']"
    by code_simp
  have e: "strip ''  '' = []"
    by code_simp
  have e': "strip [char_of (194 :: nat), char_of (160 :: nat)] = []"
    by code_simp
  have f: "set_route_options blank_names_df None None
       = Inr ([\<lparr>label = [], val = []\<rparr>, \<lparr>label = [], val = []\<rparr>,
               \<lparr>label = ''1.0'', val = ''1.0''\<rparr>, \<lparr>label = ''R2'', val = ''R2''\<rparr>], [])"
    by code_simp
  have g: "city_options blank_names_df = Inr [\<lparr>label = ''A'', val = ''A''\<rparr>, \<lparr>label = ''B'', val = ''B''\<rparr>]"
    by code_simp
  have g': "depot_options blank_names_df = Inr [\<lparr>label = ''X'', val = ''X''\<rparr>]"
    by code_simp
  from blank_route_names_are_options [OF a b]
  obtain opts copts dopts where o:
     "set_route_options blank_names_df None None = Inr (opts, [])
     \<and> city_options blank_names_df = Inr copts
     \<and> depot_options blank_names_df = Inr dopts
     \<and> val ` set opts = {strip (str_cell c) | c. c \<in> set (map ROUTE_NAME (rows blank_names_df)) \<and> c \<noteq> NaN}
     \<and> (\<forall>w. Str w \<in> set (map ROUTE_NAME (rows blank_names_df)) \<and> strip w = []
            \<longrightarrow> \<lparr>label = [], val = []\<rparr> \<in> set opts)
     \<and> val ` set copts = {strip w | w. Str w \<in> set (map CITY_NAME (rows blank_names_df)) \<and> strip w \<noteq> []}
     \<and> val ` set dopts = {strip w | w. Str w \<in> set (map DEPOT_NAME (rows blank_names_df)) \<and> strip w \<noteq> []}
     \<and> (\<forall>opt \<in> set opts \<union> set copts \<union> set dopts. label opt = val opt)"
    by (elim exE) (erule that)
  have o1: "set_route_options blank_names_df None None = Inr (opts, [])"
    using o by (elim conjE)
  have o2: "\<forall>w. Str w \<in> set (map ROUTE_NAME (rows blank_names_df)) \<and> strip w = []
            \<longrightarrow> \<lparr>label = [], val = []\<rparr> \<in> set opts"
    using o by (elim conjE)
  have m: "Str [char_of (194 :: nat), char_of (160 :: nat)] \<in> set (map ROUTE_NAME (rows blank_names_df))"
    unfolding c by simp
  have "Str [char_of (194 :: nat), char_of (160 :: nat)] \<in> set (map ROUTE_NAME (rows blank_names_df))
          \<and> strip [char_of (194 :: nat), char_of (160 :: nat)] = []
            \<longrightarrow> \<lparr>label = [], val = []\<rparr> \<in> set opts"
    using o2 by (rule spec)
  then have n: "\<lparr>label = [], val = []\<rparr> \<in> set opts"
    using m e' by (elim impE) (intro conjI)
  have last: "\<exists>opts. set_route_options blank_names_df None None = Inr (opts, [])
         \<and> \<lparr>label = [], val = []\<rparr> \<in> set opts"
    by (rule exI [of _ opts], intro conjI) (rule o1 n)+
  show ?thesis
    by (intro conjI) (rule a b c d d' e e' f g g' last)+
qed

end
